theory Spec2Isabelle
  imports Main "HOL-Library.Word" "HOL-Library.Sublist"
begin

unbundle bit_operations_syntax

section \<open>Bytes and the buffer reader/writer\<close>

text \<open>
  A Node \<open>Buffer\<close> is a list of bytes. Integer fields travel little-endian at their wire
  width, so a field is a word of that width: \<open>readInt32LE\<close> and \<open>readUInt32LE\<close> return the
  same 32 bits, read with \<open>sint\<close> and \<open>unat\<close>. The writers below take the field's word.
  Where the session writes a number of the caller's or of an update (a thread index, a stack
  frame index), the writer's test that the number fits the field is \<open>num_u32\<close>; the request
  counter, the lengths and the codec's fields, typed as their field, are written at the
  field's width. A string is the list of its UTF-8 bytes.
\<close>

type_synonym byte = "8 word"
type_synonym u32 = "32 word"

definition u32le :: "u32 \<Rightarrow> byte list" where
  "u32le w = [ucast w, ucast (drop_bit 8 w), ucast (drop_bit 16 w), ucast (drop_bit 24 w)]"

definition le_u32 :: "byte \<Rightarrow> byte \<Rightarrow> byte \<Rightarrow> byte \<Rightarrow> u32" where
  "le_u32 a b c d =
     ucast a OR push_bit 8 (ucast b) OR push_bit 16 (ucast c) OR push_bit 24 (ucast d)"

datatype error =
    ShortRead \<comment> \<open>a read beyond the bounds of the managed data\<close>
  | HeaderRejected \<comment> \<open>the common-header check of an update failed\<close>
  | TypeError \<comment> \<open>a property read on \<open>undefined\<close>\<close>
  | RangeError \<comment> \<open>a number written to a field it does not fit\<close>

text \<open>
  \<open>SmartBuffer\<close> (the smart-buffer package): the managed bytes with a read cursor and a
  write cursor. The capacity given to the constructor is not observable.
\<close>

record SmartBuffer =
  buff :: "byte list"
  readOffset :: nat
  writeOffset :: nat

definition new_SmartBuffer :: SmartBuffer where
  "new_SmartBuffer = \<lparr>buff = [], readOffset = 0, writeOffset = 0\<rparr>"

definition SmartBuffer_fromBuffer :: "byte list \<Rightarrow> SmartBuffer" where
  "SmartBuffer_fromBuffer b = \<lparr>buff = b, readOffset = 0, writeOffset = length b\<rparr>"

definition SmartBuffer_toBuffer :: "SmartBuffer \<Rightarrow> byte list" where
  "SmartBuffer_toBuffer sb = buff sb"

text \<open>A write without an offset overwrites at the write cursor and advances it.\<close>

definition writeBytes :: "byte list \<Rightarrow> SmartBuffer \<Rightarrow> SmartBuffer" where
  "writeBytes bs sb =
     sb\<lparr>buff := take (writeOffset sb) (buff sb) @ bs @ drop (writeOffset sb + length bs) (buff sb),
        writeOffset := writeOffset sb + length bs\<rparr>"

text \<open>An insert shifts the bytes from the offset on to the right and advances the write cursor.\<close>

definition insertBytes :: "byte list \<Rightarrow> nat \<Rightarrow> SmartBuffer \<Rightarrow> SmartBuffer" where
  "insertBytes bs off sb =
     sb\<lparr>buff := take off (buff sb) @ bs @ drop off (buff sb),
        writeOffset := writeOffset sb + length bs\<rparr>"

definition writeUInt32LE :: "u32 \<Rightarrow> SmartBuffer \<Rightarrow> SmartBuffer" where
  "writeUInt32LE v = writeBytes (u32le v)"

definition writeInt32LE :: "u32 \<Rightarrow> SmartBuffer \<Rightarrow> SmartBuffer" where
  "writeInt32LE v = writeBytes (u32le v)"

definition writeUInt8 :: "byte \<Rightarrow> SmartBuffer \<Rightarrow> SmartBuffer" where
  "writeUInt8 v = writeBytes [v]"

definition writeStringNT :: "byte list \<Rightarrow> SmartBuffer \<Rightarrow> SmartBuffer" where
  "writeStringNT str = writeBytes (str @ [0])"

definition insertUInt32LE :: "u32 \<Rightarrow> nat \<Rightarrow> SmartBuffer \<Rightarrow> SmartBuffer" where
  "insertUInt32LE v off = insertBytes (u32le v) off"

text \<open>A numeric read past the end of the managed data throws.\<close>

definition readUInt32LE :: "SmartBuffer \<Rightarrow> error + (u32 \<times> SmartBuffer)" where
  "readUInt32LE sb =
     (let off = readOffset sb; b = buff sb in
      if off + 4 \<le> length b
      then Inr (le_u32 (b ! off) (b ! (off + 1)) (b ! (off + 2)) (b ! (off + 3)),
                sb\<lparr>readOffset := off + 4\<rparr>)
      else Inl ShortRead)"

definition readInt32LE :: "SmartBuffer \<Rightarrow> error + (u32 \<times> SmartBuffer)" where
  "readInt32LE sb = readUInt32LE sb"

definition readUInt8 :: "SmartBuffer \<Rightarrow> error + (byte \<times> SmartBuffer)" where
  "readUInt8 sb =
     (let off = readOffset sb; b = buff sb in
      if off + 1 \<le> length b then Inr (b ! off, sb\<lparr>readOffset := off + 1\<rparr>)
      else Inl ShortRead)"

text \<open>
  \<open>SmartBuffer.readStringNT\<close> looks for the next NUL from the read cursor. When there is
  none the NUL position defaults to the end of the managed data: the rest of the buffer is
  returned and the read cursor is left one past the end. It never throws.
\<close>

definition readStringNT :: "SmartBuffer \<Rightarrow> byte list \<times> SmartBuffer" where
  "readStringNT sb =
     (let str = takeWhile (\<lambda>c. c \<noteq> 0) (drop (readOffset sb) (buff sb));
          nullPos = readOffset sb + length str
      in (str, sb\<lparr>readOffset := nullPos + 1\<rparr>))"

section \<open>Constants\<close>

text \<open>
  Modelled from the spec: the enums of \<open>Constants\<close>, which is not among the sources. The
  command codes and step types are the numbers the spec lists; the update types take the
  numbers 0, 1, 2, 3 in the order the spec lists them.
\<close>

datatype COMMANDS = STOP | CONTINUE | THREADS | STACKTRACE | VARIABLES | STEP | EXIT_CHANNEL

fun command_code :: "COMMANDS \<Rightarrow> nat" where
  "command_code STOP = 1"
| "command_code CONTINUE = 2"
| "command_code THREADS = 3"
| "command_code STACKTRACE = 4"
| "command_code VARIABLES = 5"
| "command_code STEP = 6"
| "command_code EXIT_CHANNEL = 7"

datatype STEP_TYPE = STEP_TYPE_LINE | STEP_TYPE_OVER | STEP_TYPE_OUT

fun step_code :: "STEP_TYPE \<Rightarrow> byte" where
  "step_code STEP_TYPE_LINE = 1"
| "step_code STEP_TYPE_OVER = 2"
| "step_code STEP_TYPE_OUT = 3"

datatype UPDATE_TYPES = UNDEF | IO_PORT_OPENED | ALL_THREADS_STOPPED | THREAD_ATTACHED

fun update_code :: "UPDATE_TYPES \<Rightarrow> u32" where
  "update_code UNDEF = 0"
| "update_code IO_PORT_OPENED = 1"
| "update_code ALL_THREADS_STOPPED = 2"
| "update_code THREAD_ATTACHED = 3"

text \<open>\<open>UPDATE_TYPES[code]\<close>: the name of a code, \<open>undefined\<close> for a code the enum lacks.\<close>

definition UPDATE_TYPES_of :: "u32 \<Rightarrow> UPDATE_TYPES option" where
  "UPDATE_TYPES_of c =
     (if c = 0 then Some UNDEF else if c = 1 then Some IO_PORT_OPENED
      else if c = 2 then Some ALL_THREADS_STOPPED else if c = 3 then Some THREAD_ATTACHED
      else None)"

section \<open>The message codec (debugProtocol/events)\<close>

text \<open>
  The \<open>data\<close> of a message: the common fields first (a response has \<open>packetLength\<close>,
  \<open>requestId\<close> and \<open>errorCode\<close>, an update \<open>updateType\<close> as well), then the message's own.
  A field declared \<open>undefined as T\<close> is an option.
\<close>

record StackEntry =
  lineNumber :: u32
  functionName :: "byte list"
  filePath :: "byte list"

record ResponseFields =
  packetLength :: "nat option"
  requestId :: u32
  errorCode :: u32

record UpdateFields = ResponseFields +
  updateType :: u32

record StackTraceV3Response_data = ResponseFields +
  entries :: "StackEntry list option"

record ThreadAttachedUpdate_data = UpdateFields +
  threadIndex :: "u32 option"
  stopReason :: "byte option"
  stopReasonDetail :: "byte list option"

record 'd ProtocolEvent =
  success :: bool
  readOffset :: nat
  data :: 'd

type_synonym StackTraceV3Response = "StackTraceV3Response_data ProtocolEvent"
type_synonym ThreadAttachedUpdate = "ThreadAttachedUpdate_data ProtocolEvent"

text \<open>
  Modelled from the spec: \<open>protocolUtils\<close> (ProtocolUtil.ts is not among the sources).
  \<open>readStringNT\<close> consumes the bytes up to the next NUL and fails with a short read when
  there is none. The common decode helper reads \<open>packet_length\<close>, \<open>request_id\<close> and
  \<open>error_code\<close>; for an update it then checks that \<open>request_id\<close> is 0, reads \<open>update_type\<close>
  and rejects a type other than the expected one. The common encode helper prepends
  \<open>packet_length\<close>, \<open>request_id\<close>, \<open>error_code\<close> (and \<open>update_type\<close>) to the body and sets
  \<open>packet_length\<close> to the total length. \<open>bufferLoaderHelper\<close> runs the decoder on a buffer
  of at least the minimal length: \<open>success\<close> is true when the decoder did not fail and the
  declared \<open>packet_length\<close> is fully present, and \<open>readOffset\<close> is then \<open>packet_length\<close>; a
  failure leaves \<open>success\<close> false and \<open>readOffset\<close> as it was. \<open>loadJson\<close> copies the given
  fields onto \<open>data\<close>. A decoder that fails keeps the fields it had assigned.
\<close>

definition protocolUtils_readStringNT :: "SmartBuffer \<Rightarrow> error + (byte list \<times> SmartBuffer)" where
  "protocolUtils_readStringNT sb =
     (if 0 \<in> set (drop (SmartBuffer.readOffset sb) (buff sb)) then Inr (readStringNT sb)
      else Inl ShortRead)"

definition loadCommonResponseFields ::
  "'a ResponseFields_scheme \<Rightarrow> SmartBuffer
     \<Rightarrow> (error \<times> 'a ResponseFields_scheme) + ('a ResponseFields_scheme \<times> SmartBuffer)" where
  "loadCommonResponseFields d sb =
     (case readUInt32LE sb of
        Inl e \<Rightarrow> Inl (e, d)
      | Inr (pl, r1) \<Rightarrow>
          (let d1 = d\<lparr>packetLength := Some (unat pl)\<rparr> in
           case readUInt32LE r1 of
             Inl e \<Rightarrow> Inl (e, d1)
           | Inr (rid, r2) \<Rightarrow>
               (let d2 = d1\<lparr>requestId := rid\<rparr> in
                case readUInt32LE r2 of
                  Inl e \<Rightarrow> Inl (e, d2)
                | Inr (ec, r3) \<Rightarrow> Inr (d2\<lparr>errorCode := ec\<rparr>, r3))))"

definition loadCommonUpdateFields ::
  "'a UpdateFields_scheme \<Rightarrow> SmartBuffer \<Rightarrow> u32
     \<Rightarrow> (error \<times> 'a UpdateFields_scheme) + ('a UpdateFields_scheme \<times> SmartBuffer)" where
  "loadCommonUpdateFields d sb expected =
     (case loadCommonResponseFields d sb of
        Inl x \<Rightarrow> Inl x
      | Inr (d3, r3) \<Rightarrow>
          if requestId d3 = 0 then
            (case readUInt32LE r3 of
               Inl e \<Rightarrow> Inl (e, d3)
             | Inr (ut, r4) \<Rightarrow>
                 (let d4 = d3\<lparr>updateType := ut\<rparr> in
                  if ut = expected then Inr (d4, r4) else Inl (HeaderRejected, d4)))
          else Inl (HeaderRejected, d3))"

definition insertCommonResponseFields ::
  "'a ResponseFields_scheme \<Rightarrow> SmartBuffer \<Rightarrow> 'a ResponseFields_scheme \<times> SmartBuffer" where
  "insertCommonResponseFields d sb =
     (let b1 = insertUInt32LE (errorCode d) 0 sb;
          b2 = insertUInt32LE (requestId d) 0 b1;
          b3 = insertUInt32LE (word_of_nat (length (buff b2) + 4)) 0 b2
      in (d\<lparr>packetLength := Some (length (buff b3))\<rparr>, b3))"

definition insertCommonUpdateFields ::
  "'a UpdateFields_scheme \<Rightarrow> SmartBuffer \<Rightarrow> 'a UpdateFields_scheme \<times> SmartBuffer" where
  "insertCommonUpdateFields d sb =
     insertCommonResponseFields d (insertUInt32LE (updateType d) 0 sb)"

definition bufferLoaderHelper ::
  "('a ResponseFields_scheme) ProtocolEvent \<Rightarrow> byte list \<Rightarrow> nat
     \<Rightarrow> ('a ResponseFields_scheme \<Rightarrow> SmartBuffer
          \<Rightarrow> (error \<times> 'a ResponseFields_scheme) + ('a ResponseFields_scheme \<times> SmartBuffer))
     \<Rightarrow> ('a ResponseFields_scheme) ProtocolEvent" where
  "bufferLoaderHelper event buffer minByteLength processor =
     (if length buffer \<ge> minByteLength then
        (case processor (data event) (SmartBuffer_fromBuffer buffer) of
           Inl (e, d) \<Rightarrow> event\<lparr>data := d, success := False\<rparr>
         | Inr (d, sb) \<Rightarrow>
             (case packetLength d of
                None \<Rightarrow> event\<lparr>data := d, success := True, readOffset := SmartBuffer.readOffset sb\<rparr>
              | Some pl \<Rightarrow>
                  if pl \<le> length buffer then event\<lparr>data := d, success := True, readOffset := pl\<rparr>
                  else event\<lparr>data := d, success := False\<rparr>))
      else event)"

definition loadJson :: "'d ProtocolEvent \<Rightarrow> ('d \<Rightarrow> 'd) \<Rightarrow> 'd ProtocolEvent" where
  "loadJson event assign = event\<lparr>data := assign (data event)\<rparr>"

text \<open>A number or string field written while still \<open>undefined\<close>: a number is written as 0.\<close>

definition opt_u32 :: "u32 option \<Rightarrow> u32" where
  "opt_u32 v = (case v of None \<Rightarrow> 0 | Some w \<Rightarrow> w)"

definition opt_u8 :: "byte option \<Rightarrow> byte" where
  "opt_u8 v = (case v of None \<Rightarrow> 0 | Some w \<Rightarrow> w)"

subsection \<open>ThreadAttachedUpdate (src/unnamed/part_001)\<close>

definition new_ThreadAttachedUpdate :: ThreadAttachedUpdate where
  "new_ThreadAttachedUpdate =
     \<lparr>success = False, readOffset = 0,
      data = \<lparr>packetLength = None, requestId = 0, errorCode = 0,
              updateType = update_code THREAD_ATTACHED,
              threadIndex = None, stopReason = None, stopReasonDetail = None\<rparr>\<rparr>"

definition ThreadAttachedUpdate_fromJson :: "u32 \<Rightarrow> byte \<Rightarrow> byte list \<Rightarrow> ThreadAttachedUpdate" where
  "ThreadAttachedUpdate_fromJson ti sr detail =
     loadJson new_ThreadAttachedUpdate
       (\<lambda>d. d\<lparr>threadIndex := Some ti, stopReason := Some sr, stopReasonDetail := Some detail\<rparr>)"

definition ThreadAttachedUpdate_fromBuffer :: "byte list \<Rightarrow> ThreadAttachedUpdate" where
  "ThreadAttachedUpdate_fromBuffer buffer =
     bufferLoaderHelper new_ThreadAttachedUpdate buffer 12
       (\<lambda>d smartBuffer.
          case loadCommonUpdateFields d smartBuffer (updateType d) of
            Inl x \<Rightarrow> Inl x
          | Inr (d1, r1) \<Rightarrow>
              (case readInt32LE r1 of
                 Inl e \<Rightarrow> Inl (e, d1)
               | Inr (ti, r2) \<Rightarrow>
                   (let d2 = d1\<lparr>threadIndex := Some ti\<rparr> in
                    case readUInt8 r2 of
                      Inl e \<Rightarrow> Inl (e, d2)
                    | Inr (sr, r3) \<Rightarrow>
                        (let d3 = d2\<lparr>stopReason := Some sr\<rparr> in
                         case protocolUtils_readStringNT r3 of
                           Inl e \<Rightarrow> Inl (e, d3)
                         | Inr (str, r4) \<Rightarrow> Inr (d3\<lparr>stopReasonDetail := Some str\<rparr>, r4)))))"

text \<open>
  \<open>toBuffer\<close> returns the bytes and the message, whose \<open>packetLength\<close> the encode helper has
  set. Writing a string that is \<open>undefined\<close> throws.
\<close>

definition ThreadAttachedUpdate_toBuffer ::
  "ThreadAttachedUpdate \<Rightarrow> error + (byte list \<times> ThreadAttachedUpdate)" where
  "ThreadAttachedUpdate_toBuffer this =
     (let b1 = writeInt32LE (opt_u32 (threadIndex (data this))) new_SmartBuffer;
          b2 = writeUInt8 (opt_u8 (stopReason (data this))) b1
      in case stopReasonDetail (data this) of
           None \<Rightarrow> Inl TypeError
         | Some str \<Rightarrow>
             (let b3 = writeStringNT str b2;
                  (d, b4) = insertCommonUpdateFields (data this) b3
              in Inr (SmartBuffer_toBuffer b4, this\<lparr>data := d\<rparr>)))"

subsection \<open>StackTraceV3Response (src/unnamed/part_000)\<close>

definition new_StackTraceV3Response :: StackTraceV3Response where
  "new_StackTraceV3Response =
     \<lparr>success = False, readOffset = 0,
      data = \<lparr>packetLength = None, requestId = 0, errorCode = 0, entries = None\<rparr>\<rparr>"

text \<open>\<open>requestId\<close> is \<open>undefined as number\<close> at first; as a u32 it is written as 0.\<close>

definition StackTraceV3Response_fromJson :: "u32 \<Rightarrow> StackEntry list option \<Rightarrow> StackTraceV3Response" where
  "StackTraceV3Response_fromJson rid es =
     (let response = loadJson new_StackTraceV3Response (\<lambda>d. d\<lparr>requestId := rid, entries := es\<rparr>)
      in case entries (data response) of
           None \<Rightarrow> response\<lparr>data := (data response)\<lparr>entries := Some []\<rparr>\<rparr>
         | Some _ \<Rightarrow> response)"

text \<open>The \<open>for\<close> loop of \<open>fromBuffer\<close>, with the number of entries still to read.\<close>

fun readEntries ::
  "nat \<Rightarrow> StackTraceV3Response_data \<Rightarrow> SmartBuffer
     \<Rightarrow> (error \<times> StackTraceV3Response_data) + (StackTraceV3Response_data \<times> SmartBuffer)" where
  "readEntries 0 d sb = Inr (d, sb)"
| "readEntries (Suc n) d sb =
     (case readUInt32LE sb of
        Inl e \<Rightarrow> Inl (e, d)
      | Inr (ln, r1) \<Rightarrow>
          (case protocolUtils_readStringNT r1 of
             Inl e \<Rightarrow> Inl (e, d)
           | Inr (fn, r2) \<Rightarrow>
               (case protocolUtils_readStringNT r2 of
                  Inl e \<Rightarrow> Inl (e, d)
                | Inr (fp, r3) \<Rightarrow>
                    (case entries d of
                       None \<Rightarrow> Inl (TypeError, d)
                     | Some es \<Rightarrow>
                         readEntries n
                           (d\<lparr>entries := Some (es @ [\<lparr>lineNumber = ln, functionName = fn,
                                                        filePath = fp\<rparr>])\<rparr>) r3))))"

definition StackTraceV3Response_fromBuffer :: "byte list \<Rightarrow> StackTraceV3Response" where
  "StackTraceV3Response_fromBuffer buffer =
     bufferLoaderHelper new_StackTraceV3Response buffer 16
       (\<lambda>d smartBuffer.
          case loadCommonResponseFields d smartBuffer of
            Inl x \<Rightarrow> Inl x
          | Inr (d1, r1) \<Rightarrow>
              (case readUInt32LE r1 of
                 Inl e \<Rightarrow> Inl (e, d1)
               | Inr (stackSize, r2) \<Rightarrow>
                   readEntries (unat stackSize) (d1\<lparr>entries := Some []\<rparr>) r2))"

definition writeEntry :: "StackEntry \<Rightarrow> SmartBuffer \<Rightarrow> SmartBuffer" where
  "writeEntry entry sb =
     writeStringNT (filePath entry)
       (writeStringNT (functionName entry) (writeUInt32LE (lineNumber entry) sb))"

definition StackTraceV3Response_toBuffer ::
  "StackTraceV3Response \<Rightarrow> byte list \<times> StackTraceV3Response" where
  "StackTraceV3Response_toBuffer this =
     (let es = (case entries (data this) of None \<Rightarrow> [] | Some es \<Rightarrow> es);
          b1 = writeUInt32LE (word_of_nat (length es)) new_SmartBuffer;
          b2 = fold writeEntry es b1;
          (d, b3) = insertCommonResponseFields (data this) b2
      in (SmartBuffer_toBuffer b3, this\<lparr>data := d\<rparr>))"

text \<open>The bytes a reader has not read yet, and a string without a NUL.\<close>

definition remaining :: "SmartBuffer \<Rightarrow> byte list" where
  "remaining sb = drop (SmartBuffer.readOffset sb) (buff sb)"

definition no_NUL :: "byte list \<Rightarrow> bool" where
  "no_NUL str = (0 \<notin> set str)"

definition entry_bytes :: "StackEntry \<Rightarrow> byte list" where
  "entry_bytes entry = u32le (lineNumber entry) @ functionName entry @ [0] @ filePath entry @ [0]"

text \<open>No function name and no file path of the entries holds a NUL byte.\<close>

definition entries_no_NUL :: "StackEntry list \<Rightarrow> bool" where
  "entries_no_NUL es = list_all (\<lambda>e. no_NUL (functionName e) \<and> no_NUL (filePath e)) es"

section \<open>The debugger session (BrightscriptDebugger.ts)\<close>

text \<open>A socket is the list of the buffers written to it, in order, and whether it was ended.\<close>

record 'a Socket =
  written :: "'a list"
  ended :: bool

record RequestRecord =
  commandType :: COMMANDS
  extraData :: "byte list list option"

text \<open>
  The fields of the class. A field that starts \<open>undefined\<close> is an option. \<open>protocolVersion\<close>
  is \<open>None\<close> for the initial \<open>[]\<close> and the three version numbers once the handshake stored
  them. \<open>IO_CLIENTS\<close> lists the ports \<open>connectToIoPort\<close> opened a socket to.
\<close>

record BrightscriptDebugger =
  handshakeComplete :: bool
  protocolVersion :: "(u32 \<times> u32 \<times> u32) option"
  primaryThread :: "int option"
  stackFrameIndex :: "int option"
  CONTROLLER_CLIENT :: "byte list Socket"
  IO_CLIENTS :: "u32 list"
  unhandledData :: "byte list option"
  firstRunContinueFired :: bool
  stopped :: bool
  totalRequests :: nat
  activeRequests :: "int \<rightharpoonup> RequestRecord"

definition new_BrightscriptDebugger :: BrightscriptDebugger where
  "new_BrightscriptDebugger =
     \<lparr>handshakeComplete = False, protocolVersion = None, primaryThread = None,
      stackFrameIndex = None, CONTROLLER_CLIENT = \<lparr>written = [], ended = False\<rparr>,
      IO_CLIENTS = [], unhandledData = None, firstRunContinueFired = False, stopped = False,
      totalRequests = 0, activeRequests = Map.empty\<rparr>"

definition socket_write :: "'a \<Rightarrow> 'a Socket \<Rightarrow> 'a Socket" where
  "socket_write b sock = sock\<lparr>written := written sock @ [b]\<rparr>"

text \<open>
  A number handed to \<open>writeUInt32LE\<close>. The buffer passes it on to the platform's writer, which
  throws for a number below 0 or above \<open>2^32 - 1\<close>; \<open>undefined\<close> is coerced to NaN, which
  passes the range test and is written as 0.
\<close>

definition num_u32 :: "int option \<Rightarrow> error + u32" where
  "num_u32 v =
     (case v of
        None \<Rightarrow> Inr 0
      | Some i \<Rightarrow> if 0 \<le> i \<and> i \<le> 4294967295 then Inr (word_of_int i) else Inl RangeError)"

text \<open>\<open>v > -1\<close> on a number that may be \<open>undefined\<close> (the comparison is then false).\<close>

definition gt_minus1 :: "int option \<Rightarrow> bool" where
  "gt_minus1 v = (case v of None \<Rightarrow> False | Some i \<Rightarrow> i > -1)"

definition makeRequest ::
  "SmartBuffer \<Rightarrow> COMMANDS \<Rightarrow> byte list list option \<Rightarrow> BrightscriptDebugger
     \<Rightarrow> int \<times> BrightscriptDebugger" where
  "makeRequest buffer command extra s =
     (let requestId = totalRequests s + 1;
          s1 = s\<lparr>totalRequests := requestId\<rparr>;
          b1 = insertUInt32LE (word_of_nat (command_code command)) 0 buffer;
          b2 = insertUInt32LE (word_of_nat requestId) 0 b1;
          b3 = insertUInt32LE (word_of_nat (writeOffset b2 + 4)) 0 b2;
          s2 = s1\<lparr>CONTROLLER_CLIENT := socket_write (SmartBuffer_toBuffer b3) (CONTROLLER_CLIENT s1)\<rparr>;
          s3 = s2\<lparr>activeRequests :=
                    (activeRequests s2)(int requestId \<mapsto> \<lparr>commandType = command, extraData = extra\<rparr>)\<rparr>
      in (int requestId, s3))"

definition continue :: "BrightscriptDebugger \<Rightarrow> int \<times> BrightscriptDebugger" where
  "continue s =
     (let (commandSent, s1) = (if stopped s then makeRequest new_SmartBuffer CONTINUE None s else (- 1, s))
      in (commandSent, s1\<lparr>stopped := (commandSent > - 1)\<rparr>))"

definition pause :: "BrightscriptDebugger \<Rightarrow> int \<times> BrightscriptDebugger" where
  "pause s = (if \<not> stopped s then makeRequest new_SmartBuffer STOP None s else (- 1, s))"

definition exitChannel :: "BrightscriptDebugger \<Rightarrow> int \<times> BrightscriptDebugger" where
  "exitChannel s = makeRequest new_SmartBuffer EXIT_CHANNEL None s"

text \<open>
  \<open>step\<close> and \<open>stackTrace\<close> write the thread index to their buffer before they test
  \<open>stopped\<close>, so the writer's exception comes first; \<open>getVariables\<close> writes inside its test.
  The buffer is local, so a call that throws leaves the session as it was.
\<close>

definition step :: "STEP_TYPE \<Rightarrow> BrightscriptDebugger \<Rightarrow> error + (int \<times> BrightscriptDebugger)" where
  "step stepType s =
     (case num_u32 (primaryThread s) of
        Inl e \<Rightarrow> Inl e
      | Inr thread_index \<Rightarrow>
          (let buffer = writeUInt8 (step_code stepType) (writeUInt32LE thread_index new_SmartBuffer)
           in Inr (if stopped s then makeRequest buffer STEP None s else (- 1, s))))"

definition stepIn :: "BrightscriptDebugger \<Rightarrow> error + (int \<times> BrightscriptDebugger)" where
  "stepIn s = step STEP_TYPE_LINE s"

definition stepOver :: "BrightscriptDebugger \<Rightarrow> error + (int \<times> BrightscriptDebugger)" where
  "stepOver s = step STEP_TYPE_OVER s"

definition stepOut :: "BrightscriptDebugger \<Rightarrow> error + (int \<times> BrightscriptDebugger)" where
  "stepOut s = step STEP_TYPE_OUT s"

definition threads :: "BrightscriptDebugger \<Rightarrow> int \<times> BrightscriptDebugger" where
  "threads s = (if stopped s then makeRequest new_SmartBuffer THREADS None s else (- 1, s))"

text \<open>
  An argument with a default is an option: \<open>None\<close> is an argument left out (or passed as
  \<open>undefined\<close>), which takes the default.
\<close>

definition stackTrace ::
  "int option \<Rightarrow> BrightscriptDebugger \<Rightarrow> error + (int \<times> BrightscriptDebugger)" where
  "stackTrace threadIndexArg s =
     (let threadIndex = (case threadIndexArg of None \<Rightarrow> primaryThread s | Some i \<Rightarrow> Some i)
      in case num_u32 threadIndex of
           Inl e \<Rightarrow> Inl e
         | Inr thread_index \<Rightarrow>
             (let buffer = writeUInt32LE thread_index new_SmartBuffer
              in Inr (if stopped s \<and> gt_minus1 threadIndex then makeRequest buffer STACKTRACE None s
                      else (- 1, s))))"

definition getVariables ::
  "byte list list option \<Rightarrow> bool option \<Rightarrow> int option \<Rightarrow> int option \<Rightarrow> BrightscriptDebugger
     \<Rightarrow> error + (int \<times> BrightscriptDebugger)" where
  "getVariables variablePathEntriesArg getChildKeysArg stackFrameIndexArg threadIndexArg s =
     (let variablePathEntries = (case variablePathEntriesArg of None \<Rightarrow> [] | Some p \<Rightarrow> p);
          getChildKeys = (case getChildKeysArg of None \<Rightarrow> True | Some g \<Rightarrow> g);
          frameIndex = (case stackFrameIndexArg of None \<Rightarrow> stackFrameIndex s | Some i \<Rightarrow> Some i);
          threadIndex = (case threadIndexArg of None \<Rightarrow> primaryThread s | Some i \<Rightarrow> Some i)
      in if stopped s \<and> gt_minus1 threadIndex then
           (let b1 = writeUInt8 (if getChildKeys then 1 else 0) new_SmartBuffer
            in case num_u32 threadIndex of
                 Inl e \<Rightarrow> Inl e
               | Inr thread_index \<Rightarrow>
                   (let b2 = writeUInt32LE thread_index b1
                    in case num_u32 frameIndex of
                         Inl e \<Rightarrow> Inl e
                       | Inr stack_frame_index \<Rightarrow>
                           (let b3 = writeUInt32LE stack_frame_index b2;
                                b4 = writeUInt32LE (word_of_nat (length variablePathEntries)) b3;
                                b5 = fold writeStringNT variablePathEntries b4
                            in Inr (makeRequest b5 VARIABLES (Some variablePathEntries) s))))
         else Inr (- 1, s))"

section \<open>The threads update decoder (DebuggerUpdateThreads.ts)\<close>

text \<open>
  \<open>stopReason\<close> holds the stop-reason code that was read (the source stores the enum's name
  for it) and \<open>errorCode\<close> the error code; \<open>None\<close> is a field not assigned yet.
\<close>

record ThreadsStopped =
  success :: bool
  primaryThreadIndex :: int
  stopReason :: "byte option"
  stopReasonDetail :: "byte list option"

record ThreadAttached =
  success :: bool
  threadIndex :: int
  stopReason :: "byte option"
  stopReasonDetail :: "byte list option"

datatype threads_data = Stopped ThreadsStopped | Attached ThreadAttached

definition new_ThreadsStopped :: "SmartBuffer \<Rightarrow> error + (ThreadsStopped \<times> SmartBuffer)" where
  "new_ThreadsStopped bufferReader =
     (if length (buff bufferReader) \<ge> SmartBuffer.readOffset bufferReader + 6 then
        (case readInt32LE bufferReader of
           Inl e \<Rightarrow> Inl e
         | Inr (i, r1) \<Rightarrow>
             (case readUInt8 r1 of
                Inl e \<Rightarrow> Inl e
              | Inr (c, r2) \<Rightarrow>
                  (let (str, r3) = readStringNT r2 in
                   Inr (\<lparr>ThreadsStopped.success = True, primaryThreadIndex = sint i,
                         stopReason = Some c, stopReasonDetail = Some str\<rparr>, r3))))
      else Inr (\<lparr>ThreadsStopped.success = False, primaryThreadIndex = - 1,
                 stopReason = None, stopReasonDetail = None\<rparr>, bufferReader))"

definition new_ThreadAttached :: "SmartBuffer \<Rightarrow> error + (ThreadAttached \<times> SmartBuffer)" where
  "new_ThreadAttached bufferReader =
     (if length (buff bufferReader) \<ge> SmartBuffer.readOffset bufferReader + 6 then
        (case readInt32LE bufferReader of
           Inl e \<Rightarrow> Inl e
         | Inr (i, r1) \<Rightarrow>
             (case readUInt8 r1 of
                Inl e \<Rightarrow> Inl e
              | Inr (c, r2) \<Rightarrow>
                  (let (str, r3) = readStringNT r2 in
                   Inr (\<lparr>ThreadAttached.success = True, threadIndex = sint i,
                         stopReason = Some c, stopReasonDetail = Some str\<rparr>, r3))))
      else Inr (\<lparr>ThreadAttached.success = False, threadIndex = - 1,
                 stopReason = None, stopReasonDetail = None\<rparr>, bufferReader))"

text \<open>
  What \<open>removedProcessedBytes\<close> and \<open>parseUnhandledData\<close> read of every decoded frame.
  \<open>requestId\<close> is \<open>None\<close> on an object without that property.
\<close>

record Handler =
  success :: bool
  byteLength :: nat
  requestId :: "int option"

record DebuggerUpdateThreads = Handler +
  errorCode :: "u32 option"
  updateType :: "UPDATE_TYPES option"
  data :: "threads_data option"

definition threads_data_success :: "threads_data option \<Rightarrow> bool" where
  "threads_data_success d =
     (case d of None \<Rightarrow> False
      | Some (Stopped t) \<Rightarrow> ThreadsStopped.success t
      | Some (Attached a) \<Rightarrow> ThreadAttached.success a)"

text \<open>
  The constructor. An exception inside the \<open>try\<close> is caught: the object keeps the fields
  assigned so far and \<open>success\<close> stays false.
\<close>

definition new_DebuggerUpdateThreads :: "byte list \<Rightarrow> DebuggerUpdateThreads" where
  "new_DebuggerUpdateThreads buffer =
     (let u0 = \<lparr>success = False, byteLength = 0, requestId = Some (- 1),
                errorCode = None, updateType = None, data = None\<rparr>
      in if length buffer \<ge> 12 then
           (case readUInt32LE (SmartBuffer_fromBuffer buffer) of
              Inl e \<Rightarrow> u0
            | Inr (rid, r1) \<Rightarrow>
                (let u1 = u0\<lparr>requestId := Some (uint rid)\<rparr> in
                 if rid = 0 then
                   (case readUInt32LE r1 of
                      Inl e \<Rightarrow> u1
                    | Inr (ec, r2) \<Rightarrow>
                        (let u2 = u1\<lparr>errorCode := Some ec\<rparr> in
                         case readUInt32LE r2 of
                           Inl e \<Rightarrow> u2
                         | Inr (ut, r3) \<Rightarrow>
                             (let u3 = u2\<lparr>updateType := UPDATE_TYPES_of ut\<rparr> in
                              case (if updateType u3 = Some ALL_THREADS_STOPPED then
                                      (case new_ThreadsStopped r3 of
                                         Inl e \<Rightarrow> Inl e
                                       | Inr (t, r4) \<Rightarrow> Inr (Some (Stopped t), r4))
                                    else if updateType u3 = Some THREAD_ATTACHED then
                                      (case new_ThreadAttached r3 of
                                         Inl e \<Rightarrow> Inl e
                                       | Inr (a, r4) \<Rightarrow> Inr (Some (Attached a), r4))
                                    else Inr (None, r3)) of
                                Inl e \<Rightarrow> u3
                              | Inr (threadsUpdate, r4) \<Rightarrow>
                                  if threads_data_success threadsUpdate
                                  then u3\<lparr>data := threadsUpdate, byteLength := SmartBuffer.readOffset r4,
                                          success := True\<rparr>
                                  else u3)))
                 else u1))
         else u0)"

section \<open>Parsing the unhandled data (BrightscriptDebugger.ts)\<close>

text \<open>
  The other decoders the session calls (\<open>DebuggerRequestResponse\<close>, the three response
  decoders with a body, \<open>DebuggerUpdateUndefined\<close>, \<open>DebuggerUpdateConnectIoPort\<close> and
  \<open>DebuggerHandshake\<close>) are not among the sources. The session is modelled for any such
  decoders: they are a parameter, of which the session reads \<open>success\<close>, \<open>byteLength\<close>,
  \<open>requestId\<close>, the port, and the handshake's magic and version.
\<close>

record DebuggerUpdateConnectIoPort = Handler +
  port_data :: u32

record DebuggerHandshake = Handler +
  magic :: "byte list"
  majorVersion :: u32
  minorVersion :: u32
  patchVersion :: u32

record Decoders =
  DebuggerRequestResponse :: "byte list \<Rightarrow> Handler"
  DebuggerVariableRequestResponse :: "byte list \<Rightarrow> Handler"
  DebuggerStacktraceRequestResponse :: "byte list \<Rightarrow> Handler"
  DebuggerThreadsRequestResponse :: "byte list \<Rightarrow> Handler"
  DebuggerUpdateUndefined :: "byte list \<Rightarrow> Handler"
  DebuggerUpdateConnectIoPort :: "byte list \<Rightarrow> DebuggerUpdateConnectIoPort"
  DebuggerHandshake :: "byte list \<Rightarrow> DebuggerHandshake"

text \<open>\<open>'bsdebug'\<close>.\<close>

definition DEBUGGER_MAGIC :: "byte list" where
  "DEBUGGER_MAGIC = [98, 115, 100, 101, 98, 117, 103]"

text \<open>
  A call returns a value in a state, or throws in the state the session had reached. The
  recursion of \<open>parseUnhandledData\<close> through \<open>removedProcessedBytes\<close> is bounded by fuel:
  \<open>OutOfFuel\<close> is a call that did not return within the fuel given.
\<close>

datatype 'a outcome =
    Returns 'a BrightscriptDebugger
  | Throws error BrightscriptDebugger
  | OutOfFuel

definition returning :: "'b \<Rightarrow> 'a outcome \<Rightarrow> 'b outcome" where
  "returning v r =
     (case r of Returns _ s \<Rightarrow> Returns v s | Throws e s \<Rightarrow> Throws e s | OutOfFuel \<Rightarrow> OutOfFuel)"

text \<open>\<open>this.activeRequests[id]\<close>.\<close>

definition lookupRequest :: "BrightscriptDebugger \<Rightarrow> int option \<Rightarrow> RequestRecord option" where
  "lookupRequest s rid = (case rid of None \<Rightarrow> None | Some i \<Rightarrow> activeRequests s i)"

definition deleteRequest :: "BrightscriptDebugger \<Rightarrow> int option \<Rightarrow> BrightscriptDebugger" where
  "deleteRequest s rid =
     (case rid of None \<Rightarrow> s | Some i \<Rightarrow> s\<lparr>activeRequests := (activeRequests s)(i := None)\<rparr>)"

definition connectToIoPort :: "u32 \<Rightarrow> BrightscriptDebugger \<Rightarrow> BrightscriptDebugger" where
  "connectToIoPort port s = s\<lparr>IO_CLIENTS := IO_CLIENTS s @ [port]\<rparr>"

definition socket_end :: "'a Socket \<Rightarrow> 'a Socket" where
  "socket_end sock = sock\<lparr>ended := True\<rparr>"

text \<open>\<open>update.data.primaryThreadIndex\<close>: a \<open>ThreadAttached\<close> has no such property.\<close>

definition data_primaryThreadIndex :: "threads_data \<Rightarrow> int option" where
  "data_primaryThreadIndex d =
     (case d of Stopped t \<Rightarrow> Some (primaryThreadIndex t) | Attached a \<Rightarrow> None)"

definition handleThreadsUpdate :: "DebuggerUpdateThreads \<Rightarrow> BrightscriptDebugger \<Rightarrow> unit outcome" where
  "handleThreadsUpdate update s0 =
     (let s = s0\<lparr>stopped := True\<rparr> in
      if updateType update = Some ALL_THREADS_STOPPED then
        (if \<not> firstRunContinueFired s then
           (let (r, s1) = continue s in Returns () (s1\<lparr>firstRunContinueFired := True\<rparr>))
         else
           (case data update of
              None \<Rightarrow> Throws TypeError s
            | Some d \<Rightarrow>
                (let s1 = s\<lparr>primaryThread := data_primaryThreadIndex d\<rparr>;
                     s2 = s1\<lparr>stackFrameIndex := Some 0\<rparr>;
                     (r3, s3) = threads s2
                 in case stackTrace None s3 of
                      Inl e \<Rightarrow> Throws e s3
                    | Inr (r4, s4) \<Rightarrow>
                        (case getVariables (Some [[109]]) None None None s4 of
                           Inl e \<Rightarrow> Throws e s4
                         | Inr (r5, s5) \<Rightarrow>
                             (case stepIn s5 of
                                Inl e \<Rightarrow> Throws e s5
                              | Inr (r6, s6) \<Rightarrow> Returns () s6)))))
      else Returns () s)"

text \<open>
  \<open>parseUnhandledData\<close>, \<open>removedProcessedBytes\<close> and \<open>verifyHandshake\<close> call each other.
  Each is written with the call back into \<open>this.parseUnhandledData\<close> as its first argument
  \<open>self\<close>; \<open>parseUnhandledData\<close> below closes the recursion, handing down the fuel left.
\<close>

definition removedProcessedBytes ::
  "(byte list \<Rightarrow> BrightscriptDebugger \<Rightarrow> bool outcome) \<Rightarrow> int option \<Rightarrow> nat \<Rightarrow> byte list
     \<Rightarrow> BrightscriptDebugger \<Rightarrow> unit outcome" where
  "removedProcessedBytes self rid len unhandled s =
     (let s1 = (if lookupRequest s rid \<noteq> None then deleteRequest s rid else s);
          s2 = s1\<lparr>unhandledData := Some (drop len unhandled)\<rparr>
      in returning () (self (drop len unhandled) s2))"

definition verifyHandshake ::
  "(byte list \<Rightarrow> BrightscriptDebugger \<Rightarrow> bool outcome) \<Rightarrow> DebuggerHandshake \<Rightarrow> byte list
     \<Rightarrow> BrightscriptDebugger \<Rightarrow> bool outcome" where
  "verifyHandshake self debuggerHandshake unhandled s =
     (if DEBUGGER_MAGIC = magic debuggerHandshake then
        (let s1 = s\<lparr>protocolVersion :=
                       Some (majorVersion debuggerHandshake, minorVersion debuggerHandshake,
                             patchVersion debuggerHandshake)\<rparr>;
             s2 = s1\<lparr>handshakeComplete := True\<rparr>
         in returning True
              (removedProcessedBytes self (requestId debuggerHandshake)
                 (byteLength debuggerHandshake) unhandled s2))
      else Returns False (s\<lparr>CONTROLLER_CLIENT := socket_end (CONTROLLER_CLIENT s)\<rparr>))"

text \<open>The part of \<open>parseUnhandledData\<close> from the threads update on (source lines 197 to 215).\<close>

definition parseUpdates ::
  "(byte list \<Rightarrow> BrightscriptDebugger \<Rightarrow> bool outcome) \<Rightarrow> Decoders \<Rightarrow> byte list
     \<Rightarrow> BrightscriptDebugger \<Rightarrow> bool outcome" where
  "parseUpdates self D unhandled s =
     (let debuggerUpdateThreads = new_DebuggerUpdateThreads unhandled in
      if success debuggerUpdateThreads then
        (case handleThreadsUpdate debuggerUpdateThreads s of
           Returns _ s1 \<Rightarrow>
             returning True
               (removedProcessedBytes self (requestId debuggerUpdateThreads)
                  (byteLength debuggerUpdateThreads) unhandled s1)
         | Throws e s1 \<Rightarrow> Throws e s1
         | OutOfFuel \<Rightarrow> OutOfFuel)
      else
        (let debuggerUpdateUndefined = DebuggerUpdateUndefined D unhandled in
         if success debuggerUpdateUndefined then
           returning True
             (removedProcessedBytes self (requestId debuggerUpdateUndefined)
                (byteLength debuggerUpdateUndefined) unhandled s)
         else
           (let debuggerUpdateConnectIoPort = DebuggerUpdateConnectIoPort D unhandled in
            if success debuggerUpdateConnectIoPort then
              returning True
                (removedProcessedBytes self (requestId debuggerUpdateConnectIoPort)
                   (byteLength debuggerUpdateConnectIoPort) unhandled
                   (connectToIoPort (port_data debuggerUpdateConnectIoPort) s))
            else Returns False s)))"

text \<open>
  The body of \<open>parseUnhandledData\<close>. Reading \<open>commandType\<close> of a request id that is not in
  \<open>activeRequests\<close> reads a property of \<open>undefined\<close>, which throws a TypeError.
\<close>

definition parseUnhandledData_body ::
  "(byte list \<Rightarrow> BrightscriptDebugger \<Rightarrow> bool outcome) \<Rightarrow> Decoders \<Rightarrow> byte list
     \<Rightarrow> BrightscriptDebugger \<Rightarrow> bool outcome" where
  "parseUnhandledData_body self D unhandled s =
     (if handshakeComplete s then
        (let debuggerRequestResponse = DebuggerRequestResponse D unhandled in
         if success debuggerRequestResponse then
           (case lookupRequest s (requestId debuggerRequestResponse) of
              None \<Rightarrow> Throws TypeError s
            | Some request \<Rightarrow>
                (let commandType = commandType request in
                 if commandType = STOP \<or> commandType = CONTINUE \<or> commandType = STEP
                      \<or> commandType = EXIT_CHANNEL then
                   returning True
                     (removedProcessedBytes self (requestId debuggerRequestResponse)
                        (byteLength debuggerRequestResponse) unhandled s)
                 else if commandType = VARIABLES
                      \<and> success (DebuggerVariableRequestResponse D unhandled) then
                   returning True
                     (removedProcessedBytes self
                        (requestId (DebuggerVariableRequestResponse D unhandled))
                        (byteLength (DebuggerVariableRequestResponse D unhandled)) unhandled s)
                 else if commandType = STACKTRACE
                      \<and> success (DebuggerStacktraceRequestResponse D unhandled) then
                   returning True
                     (removedProcessedBytes self
                        (requestId (DebuggerStacktraceRequestResponse D unhandled))
                        (byteLength (DebuggerStacktraceRequestResponse D unhandled)) unhandled s)
                 else if commandType = THREADS
                      \<and> success (DebuggerThreadsRequestResponse D unhandled) then
                   returning True
                     (removedProcessedBytes self
                        (requestId (DebuggerThreadsRequestResponse D unhandled))
                        (byteLength (DebuggerThreadsRequestResponse D unhandled)) unhandled s)
                 else parseUpdates self D unhandled s))
         else parseUpdates self D unhandled s)
      else
        (let debuggerHandshake = DebuggerHandshake D unhandled in
         if success debuggerHandshake then verifyHandshake self debuggerHandshake unhandled s
         else Returns False s))"

primrec parseUnhandledData ::
  "nat \<Rightarrow> Decoders \<Rightarrow> byte list \<Rightarrow> BrightscriptDebugger \<Rightarrow> bool outcome" where
  "parseUnhandledData 0 D = (\<lambda>unhandled s. OutOfFuel)"
| "parseUnhandledData (Suc n) D = parseUnhandledData_body (parseUnhandledData n D) D"

text \<open>The socket's \<open>data\<close> event: the chunk is appended and the whole is parsed.\<close>

definition onData :: "nat \<Rightarrow> Decoders \<Rightarrow> byte list \<Rightarrow> BrightscriptDebugger \<Rightarrow> bool outcome" where
  "onData n D buffer s =
     (let u = (case unhandledData s of None \<Rightarrow> buffer | Some old \<Rightarrow> old @ buffer)
      in parseUnhandledData n D u (s\<lparr>unhandledData := Some u\<rparr>))"

section \<open>Vocabulary for the properties of the parser\<close>

text \<open>The state a call ends in, by return or by throw.\<close>

definition outcome_state :: "'a outcome \<Rightarrow> BrightscriptDebugger option" where
  "outcome_state r = (case r of Returns _ s \<Rightarrow> Some s | Throws _ s \<Rightarrow> Some s | OutOfFuel \<Rightarrow> None)"

text \<open>Two states with the same handshake flag and protocol version.\<close>

definition same_handshake :: "BrightscriptDebugger \<Rightarrow> BrightscriptDebugger \<Rightarrow> bool" where
  "same_handshake s s' =
     (handshakeComplete s' = handshakeComplete s \<and> protocolVersion s' = protocolVersion s)"

text \<open>A parser that, started after the handshake, ends with the handshake fields as they were.\<close>

definition keeps_handshake :: "(byte list \<Rightarrow> BrightscriptDebugger \<Rightarrow> bool outcome) \<Rightarrow> bool" where
  "keeps_handshake self =
     (\<forall>u t t'. handshakeComplete t \<longrightarrow> outcome_state (self u t) = Some t' \<longrightarrow> same_handshake t t')"

text \<open>
  Decoders that accept only a non-empty buffer and then consume at least one byte. With
  such decoders the recursion of the parser ends: a fuel above the buffer's length is enough.
\<close>

definition decoders_progress :: "Decoders \<Rightarrow> bool" where
  "decoders_progress D =
     (\<forall>u. (success (DebuggerRequestResponse D u) \<longrightarrow> u \<noteq> [] \<and> 0 < byteLength (DebuggerRequestResponse D u)) \<and>
          (success (DebuggerVariableRequestResponse D u) \<longrightarrow>
             u \<noteq> [] \<and> 0 < byteLength (DebuggerVariableRequestResponse D u)) \<and>
          (success (DebuggerStacktraceRequestResponse D u) \<longrightarrow>
             u \<noteq> [] \<and> 0 < byteLength (DebuggerStacktraceRequestResponse D u)) \<and>
          (success (DebuggerThreadsRequestResponse D u) \<longrightarrow>
             u \<noteq> [] \<and> 0 < byteLength (DebuggerThreadsRequestResponse D u)) \<and>
          (success (DebuggerUpdateUndefined D u) \<longrightarrow> u \<noteq> [] \<and> 0 < byteLength (DebuggerUpdateUndefined D u)) \<and>
          (success (DebuggerUpdateConnectIoPort D u) \<longrightarrow>
             u \<noteq> [] \<and> 0 < byteLength (DebuggerUpdateConnectIoPort D u)) \<and>
          (success (DebuggerHandshake D u) \<longrightarrow> u \<noteq> [] \<and> 0 < byteLength (DebuggerHandshake D u)))"

text \<open>A parser that returns or throws on every buffer shorter than \<open>k\<close>.\<close>

definition returns_within :: "nat \<Rightarrow> (byte list \<Rightarrow> BrightscriptDebugger \<Rightarrow> bool outcome) \<Rightarrow> bool" where
  "returns_within k self = (\<forall>u s. length u < k \<longrightarrow> self u s \<noteq> OutOfFuel)"

section \<open>Decoders after the spec\<close>

text \<open>
  Modelled from the spec: the decoders that are not among the sources, used where a property
  of the parser is evaluated on concrete bytes. The common decode helper reads
  \<open>packet_length\<close>, \<open>request_id\<close> and \<open>error_code\<close>, and for an update \<open>update_type\<close>; a
  response has a nonzero request id, an update the request id 0 and the expected update
  type; a frame succeeds only when its declared \<open>packet_length\<close> covers the header and is
  fully present, and \<open>packet_length\<close> bytes are consumed. The handshake is the
  NUL-terminated magic followed by three u32 version numbers.
\<close>

definition spec_u32_at :: "byte list \<Rightarrow> nat \<Rightarrow> u32" where
  "spec_u32_at b i = le_u32 (b ! i) (b ! (i + 1)) (b ! (i + 2)) (b ! (i + 3))"

definition spec_response :: "byte list \<Rightarrow> Handler" where
  "spec_response b =
     (if 12 \<le> length b \<and> spec_u32_at b 4 \<noteq> 0 \<and> 12 \<le> unat (spec_u32_at b 0)
         \<and> unat (spec_u32_at b 0) \<le> length b
      then \<lparr>success = True, byteLength = unat (spec_u32_at b 0),
            requestId = Some (uint (spec_u32_at b 4))\<rparr>
      else \<lparr>success = False, byteLength = 0, requestId = None\<rparr>)"

definition spec_update :: "UPDATE_TYPES \<Rightarrow> nat \<Rightarrow> byte list \<Rightarrow> Handler" where
  "spec_update expected minLen b =
     (if minLen \<le> length b \<and> spec_u32_at b 4 = 0 \<and> spec_u32_at b 12 = update_code expected
         \<and> minLen \<le> unat (spec_u32_at b 0) \<and> unat (spec_u32_at b 0) \<le> length b
      then \<lparr>success = True, byteLength = unat (spec_u32_at b 0), requestId = Some 0\<rparr>
      else \<lparr>success = False, byteLength = 0, requestId = None\<rparr>)"

definition spec_ioport :: "byte list \<Rightarrow> DebuggerUpdateConnectIoPort" where
  "spec_ioport b = Handler.extend (spec_update IO_PORT_OPENED 20 b)
                     (DebuggerUpdateConnectIoPort.fields (if 20 \<le> length b then spec_u32_at b 16 else 0))"

definition spec_handshake :: "byte list \<Rightarrow> DebuggerHandshake" where
  "spec_handshake b =
     (let m = takeWhile (\<lambda>c. c \<noteq> 0) b; n = length m + 1 in
      if n + 12 \<le> length b
      then \<lparr>success = True, byteLength = n + 12, requestId = None, magic = m,
            majorVersion = spec_u32_at b n, minorVersion = spec_u32_at b (n + 4),
            patchVersion = spec_u32_at b (n + 8)\<rparr>
      else \<lparr>success = False, byteLength = 0, requestId = None, magic = [],
            majorVersion = 0, minorVersion = 0, patchVersion = 0\<rparr>)"

definition specDecoders :: Decoders where
  "specDecoders =
     \<lparr>DebuggerRequestResponse = spec_response,
      DebuggerVariableRequestResponse = spec_response,
      DebuggerStacktraceRequestResponse = spec_response,
      DebuggerThreadsRequestResponse = spec_response,
      DebuggerUpdateUndefined = spec_update UNDEF 16,
      DebuggerUpdateConnectIoPort = spec_ioport,
      DebuggerHandshake = spec_handshake\<rparr>"

section \<open>The action queue (managers/ActionQueue.ts)\<close>

text \<open>
  An action is called and returns true or false, or throws. An item of the queue is known
  by a number; \<open>act i k\<close> is what the action of item \<open>i\<close> does when it is called after
  \<open>k\<close> earlier calls. (An action that returns a promise is not modelled.)
\<close>

datatype action_result = ReturnsBool bool | ThrowsError

datatype settlement = Resolved | Rejected

text \<open>
  \<open>_runActions\<close> is an async function: a call runs until its \<open>await\<close>, where it is
  suspended holding its \<open>queueItem\<close> and the awaited \<open>isFinished\<close>, and is resumed by the
  microtask queue, in the order of suspension. \<open>suspended\<close> is that queue. \<open>settled\<close> is the
  state of each item's deferred (a settled deferred ignores a later resolve or reject) and
  \<open>invoked\<close> the items whose action was called, in order.
\<close>

record ActionQueue =
  queueItems :: "nat list"
  nextItem :: nat
  suspended :: "(nat \<times> bool) list"
  settled :: "nat \<rightharpoonup> settlement"
  invoked :: "nat list"

definition new_ActionQueue :: ActionQueue where
  "new_ActionQueue =
     \<lparr>queueItems = [], nextItem = 0, suspended = [], settled = Map.empty, invoked = []\<rparr>"

definition settle :: "nat \<Rightarrow> settlement \<Rightarrow> ActionQueue \<Rightarrow> ActionQueue" where
  "settle i v q = (if settled q i = None then q\<lparr>settled := (settled q)(i \<mapsto> v)\<rparr> else q)"

text \<open>\<open>this.queueItems.shift()\<close>.\<close>

definition shift :: "ActionQueue \<Rightarrow> ActionQueue" where
  "shift q = q\<lparr>queueItems := tl (queueItems q)\<rparr>"

text \<open>
  \<open>_runActions\<close> from the head of its \<open>while\<close> loop to its next \<open>await\<close> or its end. An
  action that throws is caught without an \<open>await\<close>, and the loop goes on.
\<close>

function runActions_loop :: "(nat \<Rightarrow> nat \<Rightarrow> action_result) \<Rightarrow> ActionQueue \<Rightarrow> ActionQueue" where
  "runActions_loop act q =
     (case queueItems q of
        [] \<Rightarrow> q
      | queueItem # rest \<Rightarrow>
          (let q1 = q\<lparr>invoked := invoked q @ [queueItem]\<rparr> in
           case act queueItem (count_list (invoked q) queueItem) of
             ThrowsError \<Rightarrow> runActions_loop act (settle queueItem Rejected (shift q1))
           | ReturnsBool isFinished \<Rightarrow> q1\<lparr>suspended := suspended q1 @ [(queueItem, isFinished)]\<rparr>))"
  by pat_completeness auto
termination
  by (relation "measure (\<lambda>(act, q). length (queueItems q))") (auto simp add: settle_def shift_def)

text \<open>The first suspended call is resumed after its \<open>await\<close>.\<close>

definition resume :: "(nat \<Rightarrow> nat \<Rightarrow> action_result) \<Rightarrow> ActionQueue \<Rightarrow> ActionQueue" where
  "resume act q =
     (case suspended q of
        [] \<Rightarrow> q
      | (queueItem, isFinished) # others \<Rightarrow>
          (let q1 = q\<lparr>suspended := others\<rparr>;
               q2 = (if isFinished then settle queueItem Resolved (shift q1) else q1)
           in runActions_loop act q2))"

text \<open>\<open>run(action)\<close>: the item is pushed and \<open>_runActions\<close> is called.\<close>

definition run :: "(nat \<Rightarrow> nat \<Rightarrow> action_result) \<Rightarrow> ActionQueue \<Rightarrow> ActionQueue" where
  "run act q =
     runActions_loop act (q\<lparr>queueItems := queueItems q @ [nextItem q], nextItem := nextItem q + 1\<rparr>)"

text \<open>The microtask queue is drained: suspended calls are resumed until none is left.\<close>

fun drain :: "nat \<Rightarrow> (nat \<Rightarrow> nat \<Rightarrow> action_result) \<Rightarrow> ActionQueue \<Rightarrow> ActionQueue option" where
  "drain 0 act q = (if suspended q = [] then Some q else None)"
| "drain (Suc n) act q = (if suspended q = [] then Some q else drain n act (resume act q))"

section \<open>The telnet request pipeline (managers/ActionQueue.ts, second part)\<close>

definition CR :: char where "CR = CHR 0x0D"
definition LF :: char where "LF = CHR 0x0A"
definition CRLF :: string where "CRLF = [CR, LF]"

text \<open>The state of a command's deferred; \<open>isCompleted\<close> is true once it is resolved or rejected.\<close>

datatype deferred = Pending | ResolvedWith string | RejectedWith string

record Command =
  commandText :: string
  waitForPrompt :: bool
  ident :: nat
  deferred :: deferred

definition isCompleted :: "Command \<Rightarrow> bool" where
  "isCompleted c = (deferred c \<noteq> Pending)"

text \<open>
  \<open>client\<close> is \<open>None\<close> once \<open>destroy\<close> has set it to \<open>undefined\<close>. \<open>emitted\<close> lists the events
  handed to the emitter, in order, each with its name.
\<close>

record TelnetRequestPipeline =
  client :: "string Socket option"
  commands :: "Command list"
  isAtDebuggerPrompt :: bool
  activeCommand :: "Command option"
  unhandledText :: string
  commandIdSequence :: nat
  emitted :: "(string \<times> string) list"

definition new_TelnetRequestPipeline :: "string Socket \<Rightarrow> TelnetRequestPipeline" where
  "new_TelnetRequestPipeline sock =
     \<lparr>client = Some sock, commands = [], isAtDebuggerPrompt = False, activeCommand = None,
      unhandledText = [], commandIdSequence = 0, emitted = []\<rparr>"

definition isProcessing :: "TelnetRequestPipeline \<Rightarrow> bool" where
  "isProcessing p = (activeCommand p \<noteq> None)"

definition emit :: "string \<Rightarrow> string \<Rightarrow> TelnetRequestPipeline \<Rightarrow> TelnetRequestPipeline" where
  "emit eventName d p = p\<lparr>emitted := emitted p @ [(eventName, d)]\<rparr>"

text \<open>
  \<open>Command.execute\<close>, on the active command. Writing to a client that is \<open>undefined\<close>
  throws inside the \<open>try\<close>; the \<open>catch\<close> rejects the command's deferred.
\<close>

definition execute :: "Command \<Rightarrow> TelnetRequestPipeline \<Rightarrow> TelnetRequestPipeline" where
  "execute c p =
     (let text = commandText c @ CRLF;
          p1 = emit ''console-output'' text p
      in case client p1 of
           None \<Rightarrow>
             p1\<lparr>activeCommand := Some (c\<lparr>deferred := RejectedWith ''Error executing command''\<rparr>)\<rparr>
         | Some sock \<Rightarrow>
             (let p2 = p1\<lparr>client := Some (socket_write text sock)\<rparr>
              in if waitForPrompt c then p2\<lparr>isAtDebuggerPrompt := False\<rparr> else p2))"

definition executeNextCommand :: "TelnetRequestPipeline \<Rightarrow> TelnetRequestPipeline" where
  "executeNextCommand p0 =
     (let p = (case activeCommand p0 of
                 None \<Rightarrow> p0
               | Some c \<Rightarrow> if isCompleted c then p0\<lparr>activeCommand := None\<rparr> else p0)
      in if length (commands p) = 0 then p
         else if isProcessing p then p
         else if isAtDebuggerPrompt p then
           (case commands p of
              [] \<Rightarrow> p
            | c # rest \<Rightarrow> execute c (p\<lparr>activeCommand := Some c, commands := rest\<rparr>))
         else p)"

text \<open>The method \<open>write\<close>: straight to the socket, past the queue.\<close>

definition pipeline_write :: "string \<Rightarrow> TelnetRequestPipeline \<Rightarrow> error + TelnetRequestPipeline" where
  "pipeline_write text p =
     (case client p of
        None \<Rightarrow> Inl TypeError
      | Some sock \<Rightarrow> Inr (p\<lparr>client := Some (socket_write (text @ CRLF) sock)\<rparr>))"

text \<open>
  \<open>executeCommand\<close>; \<open>waitForPromptOpt\<close> and \<open>insertAtFront\<close> are the options, \<open>None\<close> for one
  left out. The \<open>finally\<close> callback of the command's promise is a later call of
  \<open>executeNextCommand\<close>.
\<close>

definition executeCommand ::
  "string \<Rightarrow> bool option \<Rightarrow> bool option \<Rightarrow> TelnetRequestPipeline \<Rightarrow> TelnetRequestPipeline" where
  "executeCommand text waitForPromptOpt insertAtFront p =
     (let command = \<lparr>commandText = text,
                     waitForPrompt = (case waitForPromptOpt of None \<Rightarrow> True | Some w \<Rightarrow> w),
                     ident = commandIdSequence p, deferred = Pending\<rparr>;
          p1 = p\<lparr>commandIdSequence := commandIdSequence p + 1\<rparr>;
          p2 = (if insertAtFront = Some True then p1\<lparr>commands := command # commands p1\<rparr>
                else p1\<lparr>commands := commands p1 @ [command]\<rparr>)
      in executeNextCommand p2)"

text \<open>
  The regular expressions of the source, on ASCII text. \<open>\s\<close> is a space, a tab, a line
  feed, a vertical tab, a form feed or a carriage return; with the flag \<open>i\<close> letters match
  in either case.
\<close>

definition is_space :: "char \<Rightarrow> bool" where
  "is_space c = (c \<in> set [CHR '' '', CHR 0x09, CHR 0x0A, CHR 0x0B, CHR 0x0C, CHR 0x0D])"

definition lower :: "char \<Rightarrow> char" where
  "lower c = (if 65 \<le> (of_char c :: nat) \<and> (of_char c :: nat) \<le> 90 then char_of (of_char c + 32 :: nat) else c)"

text \<open>The rest of the text after a literal matched at its start, in either case.\<close>

definition lit_ci :: "string \<Rightarrow> string \<Rightarrow> string option" where
  "lit_ci pat text =
     (if map lower pat = map lower (take (length pat) text) then Some (drop (length pat) text)
      else None)"

text \<open>\<open>\s+\<close> then a literal.\<close>

definition spaces_lit_ci :: "string \<Rightarrow> string \<Rightarrow> string option" where
  "spaces_lit_ci pat text =
     (case text of
        [] \<Rightarrow> None
      | c # cs \<Rightarrow> if is_space c then lit_ci pat (dropWhile is_space cs) else None)"

text \<open>Where \<open>/Brightscript Debugger>\s*/is\<close> first matches, and how long the match is.\<close>

fun prompt_index :: "string \<Rightarrow> nat option" where
  "prompt_index [] = None"
| "prompt_index (c # cs) =
     (if lit_ci ''Brightscript Debugger>'' (c # cs) \<noteq> None then Some 0
      else map_option Suc (prompt_index cs))"

definition prompt_match :: "string \<Rightarrow> (nat \<times> nat) option" where
  "prompt_match text =
     (case prompt_index text of
        None \<Rightarrow> None
      | Some i \<Rightarrow>
          Some (i, length ''Brightscript Debugger>'' +
                   length (takeWhile is_space (drop (i + length ''Brightscript Debugger>'') text))))"

text \<open>
  \<open>removeJunk\<close>: the first match of
  \<open>/[ \t]*warning:\s*operation\s+may\s+not\s+be\s+interruptible.[ \t]*\r?\n?/i\<close> is removed.
  \<open>junk_length\<close> is the length of a match that starts at the start of the text.
\<close>

definition is_blank :: "char \<Rightarrow> bool" where
  "is_blank c = (c = CHR '' '' \<or> c = CHR 0x09)"

definition junk_length :: "string \<Rightarrow> nat option" where
  "junk_length text =
     (case lit_ci ''warning:'' (dropWhile is_blank text) of
        None \<Rightarrow> None
      | Some t1 \<Rightarrow>
     (case lit_ci ''operation'' (dropWhile is_space t1) of
        None \<Rightarrow> None
      | Some t2 \<Rightarrow>
     (case spaces_lit_ci ''may'' t2 of
        None \<Rightarrow> None
      | Some t3 \<Rightarrow>
     (case spaces_lit_ci ''not'' t3 of
        None \<Rightarrow> None
      | Some t4 \<Rightarrow>
     (case spaces_lit_ci ''be'' t4 of
        None \<Rightarrow> None
      | Some t5 \<Rightarrow>
     (case spaces_lit_ci ''interruptible'' t5 of
        None \<Rightarrow> None
      | Some t6 \<Rightarrow>
     (case t6 of
        [] \<Rightarrow> None
      | c # t7 \<Rightarrow>
          if c = LF \<or> c = CR then None
          else
            (let t8 = dropWhile is_blank t7;
                 t9 = (case t8 of [] \<Rightarrow> t8 | d # ds \<Rightarrow> if d = CR then ds else t8);
                 t10 = (case t9 of [] \<Rightarrow> t9 | d # ds \<Rightarrow> if d = LF then ds else t9)
             in Some (length text - length t10)))))))))"

fun removeJunk :: "string \<Rightarrow> string" where
  "removeJunk [] = []"
| "removeJunk (c # cs) =
     (case junk_length (c # cs) of
        Some n \<Rightarrow> drop n (c # cs)
      | None \<Rightarrow> c # removeJunk cs)"

text \<open>\<open>Command.handleData\<close>, on the active command \<open>c\<close>.\<close>

definition Command_handleData :: "Command \<Rightarrow> TelnetRequestPipeline \<Rightarrow> TelnetRequestPipeline" where
  "Command_handleData c p =
     (case prompt_match (unhandledText p) of
        None \<Rightarrow> p
      | Some (index, len) \<Rightarrow>
          (let response = removeJunk (take index (unhandledText p));
               p1 = p\<lparr>unhandledText := drop (index + len) (unhandledText p)\<rparr>;
               p2 = (if length (unhandledText p1) > 0
                     then emit ''unhandled-console-output'' (unhandledText p1) p1 else p1);
               p3 = p2\<lparr>unhandledText := []\<rparr>
           in if \<not> isCompleted c
              then p3\<lparr>activeCommand := Some (c\<lparr>deferred := ResolvedWith response\<rparr>)\<rparr>
              else p3))"

text \<open>
  The text helpers of \<open>util\<close> are not among the sources: \<open>handleData\<close> is modelled for any
  such helpers, which are a parameter.
\<close>

record Util =
  ensureDebugPromptOnOwnLine :: "string \<Rightarrow> string"
  removeThreadAttachedText :: "string \<Rightarrow> string"
  endsWithDebuggerPrompt :: "string \<Rightarrow> bool"
  endsWithThreadAttachedText :: "string \<Rightarrow> bool"

text \<open>\<open>/\n\s*/.exec(text)\<close> finds a match exactly when the text holds a line feed.\<close>

definition newline_match :: "string \<Rightarrow> bool" where
  "newline_match text = (LF \<in> set text)"

definition handleData :: "Util \<Rightarrow> string \<Rightarrow> TelnetRequestPipeline \<Rightarrow> error + TelnetRequestPipeline" where
  "handleData util d p0 =
     (let p1 = emit ''console-output'' d p0;
          p2 = p1\<lparr>unhandledText := unhandledText p1 @ d\<rparr>;
          p3 = p2\<lparr>unhandledText := ensureDebugPromptOnOwnLine util (unhandledText p2)\<rparr>;
          p4 = p3\<lparr>unhandledText := removeThreadAttachedText util (unhandledText p3)\<rparr>;
          p5 = p4\<lparr>isAtDebuggerPrompt := endsWithDebuggerPrompt util (unhandledText p4)\<rparr>
      in if \<not> isAtDebuggerPrompt p5 \<and> endsWithThreadAttachedText util (unhandledText p5) then
           (case client p5 of
              None \<Rightarrow> Inl TypeError
            | Some sock \<Rightarrow>
                Inr (p5\<lparr>client := Some (socket_write (''print \"\"'' @ CRLF) sock)\<rparr>))
         else
           (let p6 = (case activeCommand p5 of
                        Some c \<Rightarrow> Command_handleData c p5
                      | None \<Rightarrow>
                          if newline_match (unhandledText p5) \<or> isAtDebuggerPrompt p5
                          then (emit ''unhandled-console-output'' (unhandledText p5) p5)
                                 \<lparr>unhandledText := []\<rparr>
                          else p5)
            in Inr (executeNextCommand p6)))"

section \<open>Text helpers after the spec\<close>

text \<open>
  Modelled from the spec: the helpers of \<open>util\<close> used where \<open>handleData\<close> is evaluated on a
  concrete chunk. A newline is inserted before a prompt token that does not start its line;
  the lines that are Thread attached notices are stripped; the text ends with the prompt
  when, trailing whitespace apart, the prompt token is its suffix; it ends with a Thread
  attached notice when its last line is one.
\<close>

definition PROMPT :: string where
  "PROMPT = ''Brightscript Debugger>''"

fun ensure_own_line :: "bool \<Rightarrow> string \<Rightarrow> string" where
  "ensure_own_line atStart [] = []"
| "ensure_own_line atStart (c # cs) =
     (if \<not> atStart \<and> prefix PROMPT (c # cs) then LF # c # ensure_own_line False cs
      else c # ensure_own_line (c = LF) cs)"

text \<open>The lines of a text, each with the line feed that ends it.\<close>

fun text_lines :: "string \<Rightarrow> string list" where
  "text_lines [] = []"
| "text_lines (c # cs) =
     (if c = LF then [c] # text_lines cs
      else (case text_lines cs of [] \<Rightarrow> [[c]] | l # ls \<Rightarrow> (c # l) # ls))"

definition is_thread_attached :: "string \<Rightarrow> bool" where
  "is_thread_attached line = prefix ''Thread attached'' (dropWhile is_space line)"

definition spec_util :: Util where
  "spec_util =
     \<lparr>ensureDebugPromptOnOwnLine = ensure_own_line True,
      removeThreadAttachedText =
        (\<lambda>text. concat (filter (\<lambda>l. \<not> (is_thread_attached l \<and> last l = LF)) (text_lines text))),
      endsWithDebuggerPrompt = (\<lambda>text. suffix PROMPT (rev (dropWhile is_space (rev text)))),
      endsWithThreadAttachedText =
        (\<lambda>text. case text_lines text of [] \<Rightarrow> False | l # ls \<Rightarrow> is_thread_attached (last (l # ls)))\<rparr>"

section \<open>Properties of the session operations\<close>


lemma makeRequest_stopped: "stopped (snd (makeRequest b c e s)) = stopped s"
  by (simp add: makeRequest_def Let_def)


lemma makeRequest_activeRequests:
  "activeRequests (snd (makeRequest b c e s)) =
     (activeRequests s)(int (totalRequests s) + 1 \<mapsto> \<lparr>commandType = c, extraData = e\<rparr>)"
  by (simp add: makeRequest_def Let_def add.commute)

lemma makeRequest_totalRequests:
  "totalRequests (snd (makeRequest b c e s)) = totalRequests s + 1"
  by (simp add: makeRequest_def Let_def)

lemma makeRequest_eq:
  "makeRequest b c e s =
     (int (totalRequests s) + 1,
      s\<lparr>totalRequests := totalRequests s + 1,
        CONTROLLER_CLIENT := socket_write
          (u32le (word_of_nat (writeOffset b + 12)) @ u32le (word_of_nat (totalRequests s + 1)) @
           u32le (word_of_nat (command_code c)) @ buff b) (CONTROLLER_CLIENT s),
        activeRequests := (activeRequests s)(int (totalRequests s) + 1 \<mapsto> \<lparr>commandType = c, extraData = e\<rparr>)\<rparr>)"
  by (simp add: makeRequest_def Let_def socket_write_def insertUInt32LE_def insertBytes_def
      SmartBuffer_toBuffer_def u32le_def add.commute)

lemma num_u32_in_range:
  "0 \<le> i \<Longrightarrow> i \<le> 4294967295 \<Longrightarrow> num_u32 (Some i) = Inr (word_of_int i)"
  "i < 0 \<or> 4294967295 < i \<Longrightarrow> num_u32 (Some i) = Inl RangeError"
  "num_u32 None = Inr 0"
  by (auto simp: num_u32_def)

lemma num_u32_error: "num_u32 v = Inl e \<Longrightarrow> e = RangeError"
  by (auto simp: num_u32_def split: option.splits if_splits)

text \<open>
  What the gate on \<open>stopped\<close> does while the session is not stopped: \<open>continue\<close>, \<open>threads\<close>
  and \<open>getVariables\<close> return -1 and leave the session as it was; \<open>step\<close> and \<open>stackTrace\<close>
  do so when the thread index they write first fits a u32, and throw otherwise; \<open>pause\<close>
  issues its request, and returns -1 in a stopped session; \<open>exitChannel\<close> always issues its
  request.
\<close>

lemma gate_while_running:
  assumes "\<not> stopped s"
  shows "continue s = (- 1, s)" "threads s = (- 1, s)"
    "getVariables path childKeys fi ti2 s = Inr (- 1, s)"
    "step st s = (case num_u32 (primaryThread s) of Inl e \<Rightarrow> Inl e | Inr w \<Rightarrow> Inr (- 1, s))"
    "stackTrace ti s =
       (case num_u32 (case ti of None \<Rightarrow> primaryThread s | Some i \<Rightarrow> Some i) of
          Inl e \<Rightarrow> Inl e | Inr w \<Rightarrow> Inr (- 1, s))"
    "pause s = makeRequest new_SmartBuffer STOP None s"
  using assms
  by (simp_all add: continue_def step_def threads_def stackTrace_def getVariables_def pause_def
      Let_def split: sum.splits)

lemma pause_while_stopped: "stopped s \<Longrightarrow> pause s = (- 1, s)"
  by (simp add: pause_def)

lemma empty_request:
  "written (CONTROLLER_CLIENT (snd (makeRequest new_SmartBuffer c None s))) =
     written (CONTROLLER_CLIENT s) @
       [u32le 12 @ u32le (word_of_nat (totalRequests s + 1)) @ u32le (word_of_nat (command_code c))]"
  "fst (makeRequest new_SmartBuffer c None s) = int (totalRequests s) + 1"
  "activeRequests (snd (makeRequest new_SmartBuffer c None s)) (int (totalRequests s) + 1) =
     Some \<lparr>commandType = c, extraData = None\<rparr>"
  by (simp_all add: makeRequest_eq new_SmartBuffer_def socket_write_def)

text \<open>
  C5, where the code departs from the claim. A new session is not stopped. There
  \<open>stackTrace(-1)\<close> does not return -1: it throws, since the thread index is written to the
  request's buffer before \<open>stopped\<close> and \<open>threadIndex > -1\<close> are tested, and the writer
  refuses a negative number. \<open>getVariables\<close>, which writes inside the same test, returns -1
  for that thread index and leaves the session as it was.
\<close>

theorem stackTrace_throws_while_running:
  "\<not> stopped new_BrightscriptDebugger \<and>
   stackTrace (Some (- 1)) new_BrightscriptDebugger = Inl RangeError \<and>
   getVariables None None None (Some (- 1)) new_BrightscriptDebugger =
     Inr (- 1, new_BrightscriptDebugger)"
  by (simp add: stackTrace_def getVariables_def num_u32_def gt_minus1_def Let_def
      new_BrightscriptDebugger_def)









section \<open>Properties of the parser\<close>

lemma outcome_state_returning: "outcome_state (returning v r) = outcome_state r"
  by (cases r) (simp_all add: returning_def outcome_state_def)

lemma makeRequest_same_handshake: "same_handshake s (snd (makeRequest b c e s))"
  by (simp add: makeRequest_eq same_handshake_def)

lemma ops_same_handshake:
  "same_handshake s (snd (continue s))" "same_handshake s (snd (threads s))"
  "stackTrace a s = Inr (r, s') \<Longrightarrow> same_handshake s s'"
  "getVariables p g f a s = Inr (r, s') \<Longrightarrow> same_handshake s s'"
  "stepIn s = Inr (r, s') \<Longrightarrow> same_handshake s s'"
  by (auto simp: continue_def threads_def stackTrace_def getVariables_def stepIn_def step_def
      Let_def makeRequest_eq same_handshake_def split: sum.splits if_splits)

lemma same_handshake_trans: "same_handshake a b \<Longrightarrow> same_handshake b c \<Longrightarrow> same_handshake a c"
  by (simp add: same_handshake_def)

lemma handleThreadsUpdate_same_handshake:
  assumes "outcome_state (handleThreadsUpdate u s) = Some s'"
  shows "same_handshake s s'"
proof -
  have a: "same_handshake s (s\<lparr>stopped := True\<rparr>)" by (simp add: same_handshake_def)
  show ?thesis
  proof (cases "updateType u = Some ALL_THREADS_STOPPED")
    case False
    with assms show ?thesis
      by (auto simp: handleThreadsUpdate_def outcome_state_def same_handshake_def)
  next
    case True
    show ?thesis
    proof (cases "firstRunContinueFired s")
      case False
      have "same_handshake (s\<lparr>stopped := True\<rparr>) (snd (continue (s\<lparr>stopped := True\<rparr>)))"
        by (rule ops_same_handshake)
      with assms True False show ?thesis
        by (auto simp: handleThreadsUpdate_def outcome_state_def same_handshake_def split_def)
    next
      case fired: True
      show ?thesis
      proof (cases "data u")
        case None
        with assms True fired show ?thesis
          by (auto simp: handleThreadsUpdate_def outcome_state_def same_handshake_def)
      next
        case (Some d)
        define s2 where "s2 = s\<lparr>stopped := True, primaryThread := data_primaryThreadIndex d, stackFrameIndex := Some 0\<rparr>"
        define s3 where "s3 = snd (threads s2)"
        have 2: "same_handshake s s2" by (simp add: s2_def same_handshake_def)
        have "same_handshake s2 s3" unfolding s3_def by (rule ops_same_handshake)
        with 2 have 3: "same_handshake s s3" by (rule same_handshake_trans)
        have h: "outcome_state
            (case stackTrace None s3 of
               Inl e \<Rightarrow> Throws e s3
             | Inr (r4, s4) \<Rightarrow>
                 (case getVariables (Some [[109]]) None None None s4 of
                    Inl e \<Rightarrow> Throws e s4
                  | Inr (r5, s5) \<Rightarrow>
                      (case stepIn s5 of Inl e \<Rightarrow> (Throws e s5 :: unit outcome)
                       | Inr (r6, s6) \<Rightarrow> Returns () s6))) = Some s'"
          unfolding s3_def s2_def using assms True fired Some
          by (simp add: handleThreadsUpdate_def Let_def split_def)
        show ?thesis
        proof (cases "stackTrace None s3")
          case (Inl e)
          then show ?thesis using h 3 by (simp add: outcome_state_def)
        next
          case (Inr p4)
          obtain r4 s4 where p4: "stackTrace None s3 = Inr (r4, s4)"
            using Inr by (cases p4) simp
          have 4: "same_handshake s s4"
            using 3 ops_same_handshake(3) [OF p4] by (rule same_handshake_trans)
          show ?thesis
          proof (cases "getVariables (Some [[109]]) None None None s4")
            case (Inl e)
            then show ?thesis using h p4 4 by (simp add: outcome_state_def)
          next
            case (Inr p5)
            obtain r5 s5 where p5: "getVariables (Some [[109]]) None None None s4 = Inr (r5, s5)"
              using Inr by (cases p5) simp
            have 5: "same_handshake s s5"
              using 4 ops_same_handshake(4) [OF p5] by (rule same_handshake_trans)
            show ?thesis
            proof (cases "stepIn s5")
              case (Inl e)
              then show ?thesis using h p4 p5 5 by (simp add: outcome_state_def)
            next
              case (Inr p6)
              obtain r6 s6 where p6: "stepIn s5 = Inr (r6, s6)"
                using Inr by (cases p6) simp
              have "same_handshake s s6"
                using 5 ops_same_handshake(5) [OF p6] by (rule same_handshake_trans)
              then show ?thesis using h p4 p5 p6 by (simp add: outcome_state_def)
            qed
          qed
        qed
      qed
    qed
  qed
qed

lemma removedProcessedBytes_same_handshake:
  assumes self: "keeps_handshake self"
    and h: "handshakeComplete s"
    and r: "outcome_state (removedProcessedBytes self rid len unhandled s) = Some s'"
  shows "same_handshake s s'"
proof -
  define s2 where "s2 = (if lookupRequest s rid \<noteq> None then deleteRequest s rid else s)\<lparr>unhandledData := Some (drop len unhandled)\<rparr>"
  have a: "same_handshake s s2"
    by (cases rid) (simp_all add: s2_def same_handshake_def deleteRequest_def)
  then have "handshakeComplete s2" using h by (simp add: same_handshake_def)
  moreover have "outcome_state (self (drop len unhandled) s2) = Some s'"
    using r by (simp add: removedProcessedBytes_def Let_def outcome_state_returning s2_def)
  ultimately have "same_handshake s2 s'" using self by (simp add: keeps_handshake_def)
  with a show ?thesis by (rule same_handshake_trans)
qed

lemma parseUpdates_same_handshake:
  assumes self: "keeps_handshake self"
    and h: "handshakeComplete s"
    and r: "outcome_state (parseUpdates self D unhandled s) = Some s'"
  shows "same_handshake s s'"
proof (cases "success (new_DebuggerUpdateThreads unhandled)")
  case True
  show ?thesis
  proof (cases "handleThreadsUpdate (new_DebuggerUpdateThreads unhandled) s")
    case (Returns x s1)
    then have a: "same_handshake s s1"
      using handleThreadsUpdate_same_handshake [of "new_DebuggerUpdateThreads unhandled" s s1]
      by (simp add: outcome_state_def)
    then have "handshakeComplete s1" using h by (simp add: same_handshake_def)
    moreover have "outcome_state (removedProcessedBytes self (requestId (new_DebuggerUpdateThreads unhandled))
                  (byteLength (new_DebuggerUpdateThreads unhandled)) unhandled s1) = Some s'"
      using r True Returns by (simp add: parseUpdates_def Let_def outcome_state_returning)
    ultimately have "same_handshake s1 s'"
      using removedProcessedBytes_same_handshake [OF self] by blast
    with a show ?thesis by (rule same_handshake_trans)
  next
    case (Throws e s1)
    then show ?thesis
      using handleThreadsUpdate_same_handshake [of "new_DebuggerUpdateThreads unhandled" s s1] r True
      by (simp add: outcome_state_def parseUpdates_def Let_def)
  next
    case OutOfFuel
    then show ?thesis using r True by (simp add: outcome_state_def parseUpdates_def Let_def)
  qed
next
  case False
  show ?thesis
  proof (cases "success (DebuggerUpdateUndefined D unhandled)")
    case True
    then show ?thesis
      using r False removedProcessedBytes_same_handshake [OF self h]
      by (simp add: parseUpdates_def Let_def outcome_state_returning)
  next
    case nu: False
    show ?thesis
    proof (cases "success (DebuggerUpdateConnectIoPort D unhandled)")
      case True
      let ?s1 = "connectToIoPort (port_data (DebuggerUpdateConnectIoPort D unhandled)) s"
      have a: "same_handshake s ?s1" by (simp add: connectToIoPort_def same_handshake_def)
      then have "handshakeComplete ?s1" using h by (simp add: same_handshake_def)
      then have "same_handshake ?s1 s'"
        using r False nu True removedProcessedBytes_same_handshake [OF self, of ?s1]
        by (simp add: parseUpdates_def Let_def outcome_state_returning)
      with a show ?thesis by (rule same_handshake_trans)
    next
      case False
      then show ?thesis
        using r nu \<open>\<not> success (new_DebuggerUpdateThreads unhandled)\<close>
        by (simp add: parseUpdates_def Let_def outcome_state_def same_handshake_def)
    qed
  qed
qed

lemma body_same_handshake:
  assumes self: "keeps_handshake self"
    and h: "handshakeComplete s"
    and r: "outcome_state (parseUnhandledData_body self D unhandled s) = Some s'"
  shows "same_handshake s s'"
  using r h removedProcessedBytes_same_handshake [OF self h] parseUpdates_same_handshake [OF self h]
  by (auto simp add: parseUnhandledData_body_def Let_def outcome_state_returning
      split: if_splits option.splits)
    (simp_all add: outcome_state_def same_handshake_def)

lemma parseUnhandledData_keeps_handshake: "keeps_handshake (parseUnhandledData n D)"
proof (induction n)
  case 0
  then show ?case by (simp add: keeps_handshake_def outcome_state_def)
next
  case (Suc n)
  then show ?case
    using body_same_handshake [of "parseUnhandledData n D"]
    by (simp add: keeps_handshake_def)
qed

lemma returning_OutOfFuel: "(returning v r = OutOfFuel) = (r = OutOfFuel)"
  by (cases r) (simp_all add: returning_def)

lemma new_ThreadsStopped_progress:
  "new_ThreadsStopped r = Inr (t, r') \<Longrightarrow> ThreadsStopped.success t \<Longrightarrow> 0 < SmartBuffer.readOffset r'"
  by (auto simp add: new_ThreadsStopped_def readStringNT_def Let_def
      split: if_splits sum.splits prod.splits)

lemma new_ThreadAttached_progress:
  "new_ThreadAttached r = Inr (t, r') \<Longrightarrow> ThreadAttached.success t \<Longrightarrow> 0 < SmartBuffer.readOffset r'"
  by (auto simp add: new_ThreadAttached_def readStringNT_def Let_def
      split: if_splits sum.splits prod.splits)

lemma new_DebuggerUpdateThreads_progress:
  assumes "success (new_DebuggerUpdateThreads u)"
  shows "u \<noteq> [] \<and> 0 < byteLength (new_DebuggerUpdateThreads u)"
proof -
  have len: "12 \<le> length u"
    using assms by (simp add: new_DebuggerUpdateThreads_def Let_def split: if_splits)
  obtain rid r1 where r1: "readUInt32LE (SmartBuffer_fromBuffer u) = Inr (rid, r1)"
    using assms len by (auto simp add: new_DebuggerUpdateThreads_def Let_def split: sum.splits)
  have rid: "rid = 0"
    using assms len r1 by (simp add: new_DebuggerUpdateThreads_def Let_def split: if_splits)
  obtain ec r2 where r2: "readUInt32LE r1 = Inr (ec, r2)"
    using assms len r1 rid by (auto simp add: new_DebuggerUpdateThreads_def Let_def split: sum.splits)
  obtain ut r3 where r3: "readUInt32LE r2 = Inr (ut, r3)"
    using assms len r1 rid r2 by (auto simp add: new_DebuggerUpdateThreads_def Let_def split: sum.splits)
  have "0 < byteLength (new_DebuggerUpdateThreads u)"
    using assms len r1 rid r2 r3 new_ThreadsStopped_progress [of r3] new_ThreadAttached_progress [of r3]
    by (auto simp add: new_DebuggerUpdateThreads_def Let_def threads_data_success_def
        split: if_splits sum.splits)
  with len show ?thesis by auto
qed

lemma handleThreadsUpdate_not_OutOfFuel: "handleThreadsUpdate u s \<noteq> OutOfFuel"
  by (simp add: handleThreadsUpdate_def Let_def split_def split: option.splits sum.splits)

lemma removedProcessedBytes_returns:
  assumes "returns_within k self" "unhandled \<noteq> []" "0 < len" "length unhandled \<le> k"
  shows "removedProcessedBytes self rid len unhandled s \<noteq> OutOfFuel"
proof -
  have "length (drop len unhandled) < k" using assms by (cases unhandled) auto
  then show ?thesis
    using assms(1) by (simp add: removedProcessedBytes_def Let_def returning_OutOfFuel returns_within_def)
qed

lemma parseUpdates_returns:
  assumes "returns_within k self" "decoders_progress D" "length unhandled \<le> k"
  shows "parseUpdates self D unhandled s \<noteq> OutOfFuel"
proof -
  note r = removedProcessedBytes_returns [OF assms(1) _ _ assms(3)]
  have p: "success (DebuggerUpdateUndefined D unhandled) \<Longrightarrow>
             unhandled \<noteq> [] \<and> 0 < byteLength (DebuggerUpdateUndefined D unhandled)"
      "success (DebuggerUpdateConnectIoPort D unhandled) \<Longrightarrow>
             unhandled \<noteq> [] \<and> 0 < byteLength (DebuggerUpdateConnectIoPort D unhandled)"
    using assms(2) by (simp_all add: decoders_progress_def)
  show ?thesis
    using r p new_DebuggerUpdateThreads_progress [of unhandled] handleThreadsUpdate_not_OutOfFuel
    by (simp add: parseUpdates_def Let_def returning_OutOfFuel split: outcome.splits)
qed

lemma body_returns:
  assumes "returns_within k self" "decoders_progress D" "length unhandled \<le> k"
  shows "parseUnhandledData_body self D unhandled s \<noteq> OutOfFuel"
proof -
  note r = removedProcessedBytes_returns [OF assms(1) _ _ assms(3)]
  note u = parseUpdates_returns [OF assms]
  have p: "success (DebuggerRequestResponse D unhandled) \<Longrightarrow>
             unhandled \<noteq> [] \<and> 0 < byteLength (DebuggerRequestResponse D unhandled)"
      "success (DebuggerVariableRequestResponse D unhandled) \<Longrightarrow>
             unhandled \<noteq> [] \<and> 0 < byteLength (DebuggerVariableRequestResponse D unhandled)"
      "success (DebuggerStacktraceRequestResponse D unhandled) \<Longrightarrow>
             unhandled \<noteq> [] \<and> 0 < byteLength (DebuggerStacktraceRequestResponse D unhandled)"
      "success (DebuggerThreadsRequestResponse D unhandled) \<Longrightarrow>
             unhandled \<noteq> [] \<and> 0 < byteLength (DebuggerThreadsRequestResponse D unhandled)"
      "success (DebuggerHandshake D unhandled) \<Longrightarrow>
             unhandled \<noteq> [] \<and> 0 < byteLength (DebuggerHandshake D unhandled)"
    using assms(2) by (simp_all add: decoders_progress_def)
  show ?thesis
    using r u p
    by (simp add: parseUnhandledData_body_def verifyHandshake_def Let_def returning_OutOfFuel
        split: option.splits)
qed

lemma parseUnhandledData_returns:
  "decoders_progress D \<Longrightarrow> returns_within n (parseUnhandledData n D)"
proof (induction n)
  case 0
  then show ?case by (simp add: returns_within_def)
next
  case (Suc n)
  then have "returns_within n (parseUnhandledData n D)" by simp
  then show ?case
    using body_returns [of n "parseUnhandledData n D" D] Suc.prems
    by (simp add: returns_within_def)
qed


lemma verifyHandshake_step:
  "\<not> handshakeComplete s \<Longrightarrow> success (DebuggerHandshake D unhandled) \<Longrightarrow>
   parseUnhandledData (Suc n) D unhandled s =
     verifyHandshake (parseUnhandledData n D) (DebuggerHandshake D unhandled) unhandled s"
  by (simp add: parseUnhandledData_body_def)

text \<open>
  C6. While the handshake is not complete the parser tries the handshake decoder and nothing
  else, whatever the other decoders would make of the bytes. When no handshake is decoded
  the call returns false and the session is unchanged. When one is decoded and its magic is
  not \<open>bsdebug\<close> the socket is ended, nothing else changes (so \<open>handshakeComplete\<close> stays
  false) and the call returns false. When its magic is \<open>bsdebug\<close> the session stores the
  three version numbers, sets \<open>handshakeComplete\<close>, drops the handshake's bytes from
  \<open>unhandledData\<close> and parses the rest; however that goes on, the call ends with
  \<open>handshakeComplete\<close> true and the stored version, and with decoders that consume at least
  one byte of a non-empty buffer a fuel above the buffer's length is enough for it to end.
\<close>

theorem handshake_first:
  "\<not> handshakeComplete s \<Longrightarrow> h = DebuggerHandshake D unhandled \<Longrightarrow>
   s1 = s\<lparr>protocolVersion := Some (majorVersion h, minorVersion h, patchVersion h),
          handshakeComplete := True\<rparr> \<Longrightarrow>
   (\<not> success h \<longrightarrow> parseUnhandledData (Suc n) D unhandled s = Returns False s) \<and>
   (success h \<and> magic h \<noteq> DEBUGGER_MAGIC \<longrightarrow>
      parseUnhandledData (Suc n) D unhandled s =
        Returns False (s\<lparr>CONTROLLER_CLIENT := socket_end (CONTROLLER_CLIENT s)\<rparr>)) \<and>
   (success h \<and> magic h = DEBUGGER_MAGIC \<longrightarrow>
      parseUnhandledData (Suc n) D unhandled s =
        returning True
          (parseUnhandledData n D (drop (byteLength h) unhandled)
             ((if lookupRequest s1 (requestId h) \<noteq> None then deleteRequest s1 (requestId h) else s1)
                \<lparr>unhandledData := Some (drop (byteLength h) unhandled)\<rparr>)) \<and>
      (\<forall>s'. outcome_state (parseUnhandledData (Suc n) D unhandled s) = Some s' \<longrightarrow>
         handshakeComplete s' \<and>
         protocolVersion s' = Some (majorVersion h, minorVersion h, patchVersion h)) \<and>
      (decoders_progress D \<and> length unhandled \<le> n \<longrightarrow>
         parseUnhandledData (Suc n) D unhandled s \<noteq> OutOfFuel))"
proof (intro conjI impI allI)
  assume a: "\<not> handshakeComplete s" "h = DebuggerHandshake D unhandled"
  assume "\<not> success h"
  then show "parseUnhandledData (Suc n) D unhandled s = Returns False s"
    using a by (simp add: parseUnhandledData_body_def)
next
  assume a: "\<not> handshakeComplete s" "h = DebuggerHandshake D unhandled"
  assume "success h \<and> magic h \<noteq> DEBUGGER_MAGIC"
  then show "parseUnhandledData (Suc n) D unhandled s =
        Returns False (s\<lparr>CONTROLLER_CLIENT := socket_end (CONTROLLER_CLIENT s)\<rparr>)"
    using a by (auto simp add: parseUnhandledData_body_def verifyHandshake_def)
next
  assume a: "\<not> handshakeComplete s" "h = DebuggerHandshake D unhandled"
    and s1: "s1 = s\<lparr>protocolVersion := Some (majorVersion h, minorVersion h, patchVersion h),
          handshakeComplete := True\<rparr>"
  assume g: "success h \<and> magic h = DEBUGGER_MAGIC"
  then show eq: "parseUnhandledData (Suc n) D unhandled s =
        returning True
          (parseUnhandledData n D (drop (byteLength h) unhandled)
             ((if lookupRequest s1 (requestId h) \<noteq> None then deleteRequest s1 (requestId h) else s1)
                \<lparr>unhandledData := Some (drop (byteLength h) unhandled)\<rparr>))"
    using a s1
    by (simp add: parseUnhandledData_body_def verifyHandshake_def removedProcessedBytes_def Let_def
        returning_def split: outcome.splits)
  {
    fix s'
    assume r: "outcome_state (parseUnhandledData (Suc n) D unhandled s) = Some s'"
    let ?s2 = "(if lookupRequest s1 (requestId h) \<noteq> None then deleteRequest s1 (requestId h) else s1)
                \<lparr>unhandledData := Some (drop (byteLength h) unhandled)\<rparr>"
    have s2: "handshakeComplete ?s2 \<and>
              protocolVersion ?s2 = Some (majorVersion h, minorVersion h, patchVersion h)"
      using s1 by (cases "requestId h") (simp_all add: deleteRequest_def)
    have "outcome_state (parseUnhandledData n D (drop (byteLength h) unhandled) ?s2) = Some s'"
      using r eq by (simp add: outcome_state_returning)
    then have "same_handshake ?s2 s'"
      using parseUnhandledData_keeps_handshake [of n D] s2 by (simp add: keeps_handshake_def)
    then show "handshakeComplete s'"
      and "protocolVersion s' = Some (majorVersion h, minorVersion h, patchVersion h)"
      using s2 by (simp_all add: same_handshake_def)
  }
  {
    assume p: "decoders_progress D \<and> length unhandled \<le> n"
    then have "returns_within n (parseUnhandledData n D)"
      using parseUnhandledData_returns by blast
    moreover have "unhandled \<noteq> [] \<and> 0 < byteLength h"
      using p g a by (simp add: decoders_progress_def)
    then have "length (drop (byteLength h) unhandled) < n"
      using p by (cases unhandled) auto
    ultimately show "parseUnhandledData (Suc n) D unhandled s \<noteq> OutOfFuel"
      unfolding eq by (simp add: returning_OutOfFuel returns_within_def)
  }
qed

lemma specDecoders_progress: "decoders_progress specDecoders"
  by (auto simp add: decoders_progress_def specDecoders_def spec_response_def spec_update_def
      spec_ioport_def spec_handshake_def Handler.extend_def Let_def split: if_splits)

lemma spec_handshake_good:
  "spec_handshake [98,115,100,101,98,117,103,0, 3,0,0,0, 1,0,0,0, 0,0,0,0] =
     \<lparr>success = True, byteLength = 20, requestId = None, magic = DEBUGGER_MAGIC,
      majorVersion = 3, minorVersion = 1, patchVersion = 0\<rparr>"
  by (simp add: spec_handshake_def spec_u32_at_def le_u32_def DEBUGGER_MAGIC_def)

lemma spec_handshake_bad:
  "spec_handshake [120,115,100,101,98,117,103,0, 3,0,0,0, 1,0,0,0, 0,0,0,0] =
     \<lparr>success = True, byteLength = 20, requestId = None, magic = [120,115,100,101,98,117,103],
      majorVersion = 3, minorVersion = 1, patchVersion = 0\<rparr>"
  by (simp add: spec_handshake_def spec_u32_at_def le_u32_def)

lemma parse_empty_after_handshake:
  "handshakeComplete s \<Longrightarrow> parseUnhandledData (Suc 0) specDecoders [] s = Returns False s"
  by (simp add: parseUnhandledData_body_def parseUpdates_def specDecoders_def spec_response_def
      spec_update_def spec_ioport_def Handler.extend_def new_DebuggerUpdateThreads_def)

theorem handshake_first_witness:
  "parseUnhandledData (Suc (Suc 0)) specDecoders
     [98,115,100,101,98,117,103,0, 3,0,0,0, 1,0,0,0, 0,0,0,0] new_BrightscriptDebugger =
     Returns True
       (new_BrightscriptDebugger\<lparr>protocolVersion := Some (3, 1, 0), handshakeComplete := True,
          unhandledData := Some []\<rparr>) \<and>
   parseUnhandledData (Suc (Suc 0)) specDecoders
     [120,115,100,101,98,117,103,0, 3,0,0,0, 1,0,0,0, 0,0,0,0] new_BrightscriptDebugger =
     Returns False
       (new_BrightscriptDebugger\<lparr>CONTROLLER_CLIENT := \<lparr>written = [], ended = True\<rparr>\<rparr>) \<and>
   parseUnhandledData (Suc (Suc 0)) specDecoders [98,115,100] new_BrightscriptDebugger =
     Returns False new_BrightscriptDebugger"
proof -
  have n: "\<not> handshakeComplete new_BrightscriptDebugger"
    by (simp add: new_BrightscriptDebugger_def)
  have d: "DebuggerHandshake specDecoders = spec_handshake"
    by (simp add: specDecoders_def)
  have short: "\<not> success (spec_handshake [98,115,100])"
    by (simp add: spec_handshake_def)
  note good = handshake_first [OF n refl refl, of specDecoders
      "[98,115,100,101,98,117,103,0, 3,0,0,0, 1,0,0,0, 0,0,0,0]" "Suc 0"]
  note bad = handshake_first [OF n refl refl, of specDecoders
      "[120,115,100,101,98,117,103,0, 3,0,0,0, 1,0,0,0, 0,0,0,0]" "Suc 0"]
  note none = handshake_first [OF n refl refl, of specDecoders "[98,115,100]" "Suc 0"]
  have 1: "parseUnhandledData (Suc (Suc 0)) specDecoders
     [98,115,100,101,98,117,103,0, 3,0,0,0, 1,0,0,0, 0,0,0,0] new_BrightscriptDebugger =
     Returns True
       (new_BrightscriptDebugger\<lparr>protocolVersion := Some (3, 1, 0), handshakeComplete := True,
          unhandledData := Some []\<rparr>)"
    using good
    by (simp add: d spec_handshake_good lookupRequest_def parse_empty_after_handshake returning_def
        del: parseUnhandledData.simps)
  have 2: "parseUnhandledData (Suc (Suc 0)) specDecoders
     [120,115,100,101,98,117,103,0, 3,0,0,0, 1,0,0,0, 0,0,0,0] new_BrightscriptDebugger =
     Returns False
       (new_BrightscriptDebugger\<lparr>CONTROLLER_CLIENT := \<lparr>written = [], ended = True\<rparr>\<rparr>)"
    using bad
    by (simp add: d spec_handshake_bad DEBUGGER_MAGIC_def socket_end_def new_BrightscriptDebugger_def
        del: parseUnhandledData.simps)
  have 3: "parseUnhandledData (Suc (Suc 0)) specDecoders [98,115,100] new_BrightscriptDebugger =
     Returns False new_BrightscriptDebugger"
    using none short by (simp add: d del: parseUnhandledData.simps)
  from 1 2 3 show ?thesis by blast
qed

lemma unknown_request_id:
  "handshakeComplete s \<Longrightarrow> success (DebuggerRequestResponse D unhandled) \<Longrightarrow>
   lookupRequest s (requestId (DebuggerRequestResponse D unhandled)) = None \<Longrightarrow>
   parseUnhandledData (Suc n) D unhandled s = Throws TypeError s"
  by (simp add: parseUnhandledData_body_def)

lemma known_request_id:
  "handshakeComplete s \<Longrightarrow> success (DebuggerRequestResponse D unhandled) \<Longrightarrow>
   lookupRequest s (requestId (DebuggerRequestResponse D unhandled)) = Some request \<Longrightarrow>
   parseUnhandledData (Suc n) D unhandled s =
     (let self = parseUnhandledData n D; c = commandType request in
      if c = STOP \<or> c = CONTINUE \<or> c = STEP \<or> c = EXIT_CHANNEL then
        returning True (removedProcessedBytes self (requestId (DebuggerRequestResponse D unhandled))
          (byteLength (DebuggerRequestResponse D unhandled)) unhandled s)
      else if c = VARIABLES \<and> success (DebuggerVariableRequestResponse D unhandled) then
        returning True (removedProcessedBytes self (requestId (DebuggerVariableRequestResponse D unhandled))
          (byteLength (DebuggerVariableRequestResponse D unhandled)) unhandled s)
      else if c = STACKTRACE \<and> success (DebuggerStacktraceRequestResponse D unhandled) then
        returning True (removedProcessedBytes self (requestId (DebuggerStacktraceRequestResponse D unhandled))
          (byteLength (DebuggerStacktraceRequestResponse D unhandled)) unhandled s)
      else if c = THREADS \<and> success (DebuggerThreadsRequestResponse D unhandled) then
        returning True (removedProcessedBytes self (requestId (DebuggerThreadsRequestResponse D unhandled))
          (byteLength (DebuggerThreadsRequestResponse D unhandled)) unhandled s)
      else parseUpdates self D unhandled s)"
  by (simp add: parseUnhandledData_body_def Let_def)

text \<open>
  C3, where the code departs from the claim. After the handshake, a response whose request
  id is not a key of \<open>activeRequests\<close> makes the parser read \<open>commandType\<close> of \<open>undefined\<close>:
  it throws a TypeError out of the \<open>data\<close> handler, with the frame still in
  \<open>unhandledData\<close>. Here the frame is a 12-byte response with request id 7 and the session
  has no request outstanding. (A response whose request id is a key is dispatched by the
  command type recorded for it: \<open>known_request_id\<close>.)
\<close>

theorem unknown_request_id_faults:
  "success (DebuggerRequestResponse specDecoders [12,0,0,0, 7,0,0,0, 0,0,0,0]) \<and>
   requestId (DebuggerRequestResponse specDecoders [12,0,0,0, 7,0,0,0, 0,0,0,0]) = Some 7 \<and>
   activeRequests (new_BrightscriptDebugger\<lparr>handshakeComplete := True\<rparr>) 7 = None \<and>
   onData (Suc n) specDecoders [12,0,0,0, 7,0,0,0, 0,0,0,0]
     (new_BrightscriptDebugger\<lparr>handshakeComplete := True\<rparr>) =
     Throws TypeError
       (new_BrightscriptDebugger\<lparr>handshakeComplete := True,
          unhandledData := Some [12,0,0,0, 7,0,0,0, 0,0,0,0]\<rparr>)"
proof -
  let ?f = "[12,0,0,0, 7,0,0,0, 0,0,0,0] :: byte list"
  let ?s = "new_BrightscriptDebugger\<lparr>handshakeComplete := True, unhandledData := Some ?f\<rparr>"
  have r: "DebuggerRequestResponse specDecoders ?f =
             \<lparr>success = True, byteLength = 12, requestId = Some 7\<rparr>"
    by (simp add: specDecoders_def spec_response_def spec_u32_at_def le_u32_def)
  have a: "activeRequests (new_BrightscriptDebugger\<lparr>handshakeComplete := True\<rparr>) 7 = None"
    by (simp add: new_BrightscriptDebugger_def)
  have l: "lookupRequest ?s (requestId (DebuggerRequestResponse specDecoders ?f)) = None"
    by (simp add: r lookupRequest_def new_BrightscriptDebugger_def)
  have "parseUnhandledData (Suc n) specDecoders ?f ?s = Throws TypeError ?s"
    using l by (intro unknown_request_id) (simp_all add: r)
  then have "onData (Suc n) specDecoders ?f (new_BrightscriptDebugger\<lparr>handshakeComplete := True\<rparr>) =
      Throws TypeError ?s"
    by (simp add: onData_def Let_def new_BrightscriptDebugger_def del: parseUnhandledData.simps)
  with r a show ?thesis by simp
qed

lemma first_chunk_decoded:
  "new_DebuggerUpdateThreads [0,0,0,0, 0,0,0,0, 2,0,0,0, 0,0,0,0, 1, 97, 98] =
     \<lparr>success = True, byteLength = 20, requestId = Some 0, errorCode = Some 0,
      updateType = Some ALL_THREADS_STOPPED,
      data = Some (Stopped \<lparr>ThreadsStopped.success = True, primaryThreadIndex = 0,
                            stopReason = Some 1, stopReasonDetail = Some [97, 98]\<rparr>)\<rparr>"
  by (simp add: new_DebuggerUpdateThreads_def SmartBuffer_fromBuffer_def readUInt32LE_def
      readInt32LE_def readUInt8_def readStringNT_def new_ThreadsStopped_def le_u32_def
      UPDATE_TYPES_of_def threads_data_success_def Let_def)

lemma whole_frame_decoded:
  "new_DebuggerUpdateThreads [0,0,0,0, 0,0,0,0, 2,0,0,0, 0,0,0,0, 1, 97, 98, 99, 0] =
     \<lparr>success = True, byteLength = 21, requestId = Some 0, errorCode = Some 0,
      updateType = Some ALL_THREADS_STOPPED,
      data = Some (Stopped \<lparr>ThreadsStopped.success = True, primaryThreadIndex = 0,
                            stopReason = Some 1, stopReasonDetail = Some [97, 98, 99]\<rparr>)\<rparr>"
  by (simp add: new_DebuggerUpdateThreads_def SmartBuffer_fromBuffer_def readUInt32LE_def
      readInt32LE_def readUInt8_def readStringNT_def new_ThreadsStopped_def le_u32_def
      UPDATE_TYPES_of_def threads_data_success_def Let_def)

lemma nothing_decoded: "\<not> success (new_DebuggerUpdateThreads [])"
  by (simp add: new_DebuggerUpdateThreads_def)

lemma first_chunk_parsed:
  "onData (Suc (Suc 0)) specDecoders [0,0,0,0, 0,0,0,0, 2,0,0,0, 0,0,0,0, 1, 97, 98]
     (new_BrightscriptDebugger\<lparr>handshakeComplete := True\<rparr>) =
   Returns True
     (new_BrightscriptDebugger
        \<lparr>handshakeComplete := True, stopped := True, totalRequests := 1,
         CONTROLLER_CLIENT := \<lparr>written = [[12,0,0,0, 1,0,0,0, 2,0,0,0]], ended = False\<rparr>,
         activeRequests := [1 \<mapsto> \<lparr>commandType = CONTINUE, extraData = None\<rparr>],
         firstRunContinueFired := True, unhandledData := Some []\<rparr>)"
  apply (simp add: onData_def Let_def parseUnhandledData_body_def parseUpdates_def first_chunk_decoded)
  apply (simp add: specDecoders_def spec_response_def spec_update_def spec_ioport_def
      spec_u32_at_def Handler.extend_def DebuggerUpdateConnectIoPort.fields_def le_u32_def
      handleThreadsUpdate_def new_BrightscriptDebugger_def continue_def makeRequest_eq
      removedProcessedBytes_def lookupRequest_def first_chunk_decoded nothing_decoded returning_def
      new_SmartBuffer_def socket_write_def u32le_def parseUpdates_def parseUnhandledData_body_def)
  done

lemma second_chunk_parsed:
  "onData (Suc (Suc 0)) specDecoders [99, 0]
     (new_BrightscriptDebugger
        \<lparr>handshakeComplete := True, stopped := True, totalRequests := 1,
         CONTROLLER_CLIENT := \<lparr>written = [[12,0,0,0, 1,0,0,0, 2,0,0,0]], ended = False\<rparr>,
         activeRequests := [1 \<mapsto> \<lparr>commandType = CONTINUE, extraData = None\<rparr>],
         firstRunContinueFired := True, unhandledData := Some []\<rparr>) =
   Returns False
     (new_BrightscriptDebugger
        \<lparr>handshakeComplete := True, stopped := True, totalRequests := 1,
         CONTROLLER_CLIENT := \<lparr>written = [[12,0,0,0, 1,0,0,0, 2,0,0,0]], ended = False\<rparr>,
         activeRequests := [1 \<mapsto> \<lparr>commandType = CONTINUE, extraData = None\<rparr>],
         firstRunContinueFired := True, unhandledData := Some [99, 0]\<rparr>)"
  apply (simp add: onData_def Let_def new_BrightscriptDebugger_def)
  apply (simp add: parseUnhandledData_body_def specDecoders_def spec_response_def)
  apply (simp add: parseUpdates_def new_DebuggerUpdateThreads_def spec_update_def spec_ioport_def
      Handler.extend_def DebuggerUpdateConnectIoPort.fields_def)
  done

text \<open>
  C2, where the code departs from the claim. The frame of an ALL_THREADS_STOPPED update
  with primary thread 0, stop reason 1 and detail \<open>abc\<close> is 21 bytes. Its first 19 bytes,
  a chunk that ends inside the detail string, are decoded with \<open>success\<close> true and a
  \<open>byteLength\<close> of 20, one more than the chunk holds: \<open>readStringNT\<close> takes the bytes up
  to the end of the buffer for the string. The parser then handles the update (here the
  first-run Continue is written) and leaves \<open>unhandledData\<close> empty; the rest of the frame,
  when it arrives, is decoded by nothing and stays in \<open>unhandledData\<close>.
\<close>

theorem split_frame_decoded_early:
  "success (new_DebuggerUpdateThreads [0,0,0,0, 0,0,0,0, 2,0,0,0, 0,0,0,0, 1, 97, 98]) \<and>
   byteLength (new_DebuggerUpdateThreads [0,0,0,0, 0,0,0,0, 2,0,0,0, 0,0,0,0, 1, 97, 98]) = 20 \<and>
   byteLength (new_DebuggerUpdateThreads [0,0,0,0, 0,0,0,0, 2,0,0,0, 0,0,0,0, 1, 97, 98, 99, 0]) = 21 \<and>
   onData (Suc (Suc 0)) specDecoders [0,0,0,0, 0,0,0,0, 2,0,0,0, 0,0,0,0, 1, 97, 98]
     (new_BrightscriptDebugger\<lparr>handshakeComplete := True\<rparr>) =
   Returns True
     (new_BrightscriptDebugger
        \<lparr>handshakeComplete := True, stopped := True, totalRequests := 1,
         CONTROLLER_CLIENT := \<lparr>written = [[12,0,0,0, 1,0,0,0, 2,0,0,0]], ended = False\<rparr>,
         activeRequests := [1 \<mapsto> \<lparr>commandType = CONTINUE, extraData = None\<rparr>],
         firstRunContinueFired := True, unhandledData := Some []\<rparr>) \<and>
   onData (Suc (Suc 0)) specDecoders [99, 0]
     (new_BrightscriptDebugger
        \<lparr>handshakeComplete := True, stopped := True, totalRequests := 1,
         CONTROLLER_CLIENT := \<lparr>written = [[12,0,0,0, 1,0,0,0, 2,0,0,0]], ended = False\<rparr>,
         activeRequests := [1 \<mapsto> \<lparr>commandType = CONTINUE, extraData = None\<rparr>],
         firstRunContinueFired := True, unhandledData := Some []\<rparr>) =
   Returns False
     (new_BrightscriptDebugger
        \<lparr>handshakeComplete := True, stopped := True, totalRequests := 1,
         CONTROLLER_CLIENT := \<lparr>written = [[12,0,0,0, 1,0,0,0, 2,0,0,0]], ended = False\<rparr>,
         activeRequests := [1 \<mapsto> \<lparr>commandType = CONTINUE, extraData = None\<rparr>],
         firstRunContinueFired := True, unhandledData := Some [99, 0]\<rparr>)"
  using first_chunk_parsed second_chunk_parsed
  by (simp add: first_chunk_decoded whole_frame_decoded del: parseUnhandledData.simps)

section \<open>Properties of the action queue\<close>

lemma runs_apart:
  "drain 5 (\<lambda>i k. if i = 0 then ReturnsBool True else ReturnsBool (k \<noteq> 0))
     (run (\<lambda>i k. if i = 0 then ReturnsBool True else ReturnsBool (k \<noteq> 0))
        (the (drain 5 (\<lambda>i k. if i = 0 then ReturnsBool True else ReturnsBool (k \<noteq> 0))
           (run (\<lambda>i k. if i = 0 then ReturnsBool True else ReturnsBool (k \<noteq> 0)) new_ActionQueue)))) =
   Some \<lparr>queueItems = [], nextItem = 2, suspended = [],
         settled = [0 \<mapsto> Resolved, 1 \<mapsto> Resolved], invoked = [0, 1, 1]\<rparr>"
  by (simp add: run_def new_ActionQueue_def resume_def settle_def shift_def eval_nat_numeral)

text \<open>
  C7, where the code departs from the claim. Two actions are enqueued one right after the
  other, before the first call of \<open>_runActions\<close> is resumed from its \<open>await\<close>: the first
  action (item 0) returns true; the second (item 1) returns false on its first call and
  true from then on. The second call of \<open>run\<close> starts a second \<open>_runActions\<close>, which calls
  the head's action again, so item 0's action runs twice. When that second loop is resumed
  it shifts the queue, which by then has item 1 at its head: item 1, whose action has
  returned false once, is removed, never called again, and its deferred is never settled.
  (\<open>runs_apart\<close>: with the microtask queue drained between the two calls of \<open>run\<close>, both
  items are resolved and item 1's action is retried.)
\<close>

theorem queue_reentered:
  "drain 5 (\<lambda>i k. if i = 0 then ReturnsBool True else ReturnsBool (k \<noteq> 0))
     (run (\<lambda>i k. if i = 0 then ReturnsBool True else ReturnsBool (k \<noteq> 0))
        (run (\<lambda>i k. if i = 0 then ReturnsBool True else ReturnsBool (k \<noteq> 0)) new_ActionQueue)) =
   Some \<lparr>queueItems = [], nextItem = 2, suspended = [],
         settled = [0 \<mapsto> Resolved], invoked = [0, 0, 1]\<rparr>"
  by (simp add: run_def new_ActionQueue_def resume_def settle_def shift_def eval_nat_numeral)

section \<open>Properties of the telnet pipeline\<close>

text \<open>
  C8. In every state of the pipeline, \<open>executeNextCommand\<close> takes a command off the queue
  or writes to the socket only when \<open>isAtDebuggerPrompt\<close> is true and no command is in
  progress (the active command is \<open>undefined\<close>, or completed, in which case it is cleared
  first). It then takes the head of the queue, makes it the active command and writes its
  text and CRLF to the socket, and \<open>isAtDebuggerPrompt\<close> is false afterwards exactly when
  the command has \<open>waitForPrompt\<close> set. (With the client destroyed the write throws and the
  command is rejected instead.) No other function takes a command off the queue.
\<close>

theorem commands_wait_for_prompt:
  "p' = executeNextCommand p \<Longrightarrow> commands p' \<noteq> commands p \<or> client p' \<noteq> client p \<Longrightarrow>
   isAtDebuggerPrompt p \<and>
   (case activeCommand p of None \<Rightarrow> True | Some a \<Rightarrow> isCompleted a) \<and>
   (\<exists>c rest. commands p = c # rest \<and> commands p' = rest \<and>
      (case client p of
         None \<Rightarrow>
           client p' = None \<and>
           activeCommand p' = Some (c\<lparr>deferred := RejectedWith ''Error executing command''\<rparr>)
       | Some sock \<Rightarrow>
           client p' = Some (socket_write (commandText c @ CRLF) sock) \<and>
           activeCommand p' = Some c \<and>
           isAtDebuggerPrompt p' = (\<not> waitForPrompt c)))"
  by (cases "commands p"; cases "activeCommand p"; cases "client p")
    (auto simp add: executeNextCommand_def execute_def emit_def isProcessing_def Let_def
      split: if_splits)

theorem commands_wait_for_prompt_witness:
  "executeNextCommand
     ((new_TelnetRequestPipeline \<lparr>written = [], ended = False\<rparr>)
        \<lparr>commands := [\<lparr>commandText = ''bt'', waitForPrompt = True, ident = 0, deferred = Pending\<rparr>],
         isAtDebuggerPrompt := True\<rparr>) =
   (new_TelnetRequestPipeline \<lparr>written = [''bt'' @ CRLF], ended = False\<rparr>)
     \<lparr>activeCommand := Some \<lparr>commandText = ''bt'', waitForPrompt = True, ident = 0, deferred = Pending\<rparr>,
      emitted := [(''console-output'', ''bt'' @ CRLF)]\<rparr>"
proof -
  let ?c = "\<lparr>commandText = ''bt'', waitForPrompt = True, ident = 0, deferred = Pending\<rparr>"
  let ?p = "(new_TelnetRequestPipeline \<lparr>written = [], ended = False\<rparr>)
        \<lparr>commands := [?c], isAtDebuggerPrompt := True\<rparr>"
  have e: "emitted (executeNextCommand ?p) = [(''console-output'', ''bt'' @ CRLF)]"
    "unhandledText (executeNextCommand ?p) = []" "commandIdSequence (executeNextCommand ?p) = 0"
    "commands (executeNextCommand ?p) \<noteq> commands ?p"
    by (simp_all add: executeNextCommand_def execute_def emit_def isProcessing_def Let_def
        new_TelnetRequestPipeline_def)
  show ?thesis
    using commands_wait_for_prompt [OF refl, of ?p] e
    by (cases "executeNextCommand ?p") (auto simp add: new_TelnetRequestPipeline_def socket_write_def)
qed

lemma handleData_idle:
  assumes "activeCommand p = None"
    and "text = removeThreadAttachedText util (ensureDebugPromptOnOwnLine util (unhandledText p @ d))"
    and "endsWithDebuggerPrompt util text \<or> \<not> endsWithThreadAttachedText util text"
  shows "handleData util d p =
     Inr (executeNextCommand
        (if LF \<in> set text \<or> endsWithDebuggerPrompt util text
         then p\<lparr>isAtDebuggerPrompt := endsWithDebuggerPrompt util text,
                emitted := emitted p @ [(''console-output'', d), (''unhandled-console-output'', text)],
                unhandledText := []\<rparr>
         else p\<lparr>emitted := emitted p @ [(''console-output'', d)],
                unhandledText := text,
                isAtDebuggerPrompt := endsWithDebuggerPrompt util text\<rparr>))"
  using assms(1,3) unfolding assms(2)
  by (cases "endsWithDebuggerPrompt util
        (removeThreadAttachedText util (ensureDebugPromptOnOwnLine util (unhandledText p @ d)))")
    (simp_all add: handleData_def Let_def emit_def newline_match_def)

text \<open>
  C9, where the code departs from the claim. With no command active and an empty
  \<open>unhandledText\<close>, the chunk \<open>a\nb\<close> ends in the partial line \<open>b\<close>, not in a newline or a
  prompt; still the whole text is emitted as \<open>unhandled-console-output\<close> and
  \<open>unhandledText\<close> is cleared, since \<open>/\n\s*/\<close> matches a line feed anywhere in the text.
  For any helpers of \<open>util\<close>, \<open>handleData_idle\<close> gives what an idle pipeline does.
\<close>

theorem partial_line_emitted:
  "handleData spec_util [CHR ''a'', LF, CHR ''b''] (new_TelnetRequestPipeline \<lparr>written = [], ended = False\<rparr>) =
   Inr ((new_TelnetRequestPipeline \<lparr>written = [], ended = False\<rparr>)
          \<lparr>emitted := [(''console-output'', [CHR ''a'', LF, CHR ''b'']),
                       (''unhandled-console-output'', [CHR ''a'', LF, CHR ''b''])],
           unhandledText := []\<rparr>)"
proof -
  let ?p = "new_TelnetRequestPipeline \<lparr>written = [], ended = False\<rparr>"
  let ?t = "[CHR ''a'', LF, CHR ''b'']"
  have t: "removeThreadAttachedText spec_util (ensureDebugPromptOnOwnLine spec_util (unhandledText ?p @ ?t)) = ?t"
    by (simp add: spec_util_def new_TelnetRequestPipeline_def PROMPT_def LF_def is_thread_attached_def
        is_space_def)
  have e: "\<not> endsWithDebuggerPrompt spec_util ?t" "\<not> endsWithThreadAttachedText spec_util ?t"
    by (simp_all add: spec_util_def PROMPT_def LF_def is_thread_attached_def is_space_def suffix_def)
  have "handleData spec_util ?t ?p =
      Inr (executeNextCommand (?p\<lparr>isAtDebuggerPrompt := False,
                emitted := emitted ?p @ [(''console-output'', ?t), (''unhandled-console-output'', ?t)],
                unhandledText := []\<rparr>))"
    using handleData_idle [of ?p ?t spec_util ?t] t e by (simp add: new_TelnetRequestPipeline_def)
  then show ?thesis
    by (simp add: executeNextCommand_def new_TelnetRequestPipeline_def)
qed

section \<open>Properties of the message codec (StackTraceV3Response, ThreadAttachedUpdate)\<close>

lemma length_u32le [simp]: "length (u32le w) = 4"
  by (simp add: u32le_def)

lemma le_u32_u32le:
  "le_u32 (ucast w) (ucast (drop_bit 8 w)) (ucast (drop_bit 16 w)) (ucast (drop_bit 24 w)) = w"
  unfolding le_u32_def
proof (rule bit_word_eqI)
  fix n assume "n < LENGTH(32)"
  then have n: "n < 32" by simp
  consider "n < 8" | "8 \<le> n" "n < 16" | "16 \<le> n" "n < 24" | "24 \<le> n" by linarith
  then show "bit (ucast (ucast w :: byte) OR push_bit 8 (ucast (ucast (drop_bit 8 w) :: byte)) OR
           push_bit 16 (ucast (ucast (drop_bit 16 w) :: byte)) OR
           push_bit 24 (ucast (ucast (drop_bit 24 w) :: byte)) :: u32) n = bit w n"
    using n by cases (auto simp add: bit_simps)
qed

lemma remaining_advance:
  assumes "remaining sb = xs @ rest"
  shows "remaining (sb\<lparr>SmartBuffer.readOffset := SmartBuffer.readOffset sb + length xs\<rparr>) = rest"
proof -
  have "drop (SmartBuffer.readOffset sb + length xs) (buff sb) =
        drop (length xs) (drop (SmartBuffer.readOffset sb) (buff sb))"
    by (simp only: drop_drop add.commute)
  also have "\<dots> = rest" using assms by (simp add: remaining_def)
  finally show ?thesis by (simp add: remaining_def)
qed

lemma remaining_length:
  assumes "remaining sb = xs @ rest" "xs \<noteq> []"
  shows "SmartBuffer.readOffset sb + length xs \<le> length (buff sb)"
proof -
  have "length (xs @ rest) = length (drop (SmartBuffer.readOffset sb) (buff sb))"
    using assms(1) by (simp add: remaining_def)
  then have a: "length xs + length rest = length (buff sb) - SmartBuffer.readOffset sb"
    by simp
  have b: "1 \<le> length xs" using assms(2) by (cases xs) simp_all
  from a b show ?thesis by linarith
qed

lemma remaining_nth:
  assumes "remaining sb = xs @ rest" "i < length xs"
  shows "buff sb ! (SmartBuffer.readOffset sb + i) = xs ! i"
proof -
  have ne: "xs \<noteq> []" using assms(2) by auto
  have le: "SmartBuffer.readOffset sb + length xs \<le> length (buff sb)"
    using assms(1) ne by (rule remaining_length)
  have "buff sb ! (SmartBuffer.readOffset sb + i) = drop (SmartBuffer.readOffset sb) (buff sb) ! i"
    using le assms(2) by simp
  also have "\<dots> = (xs @ rest) ! i" using assms(1) by (simp add: remaining_def)
  finally show ?thesis using assms(2) by (simp add: nth_append)
qed

lemma readUInt32LE_remaining:
  assumes "remaining sb = u32le w @ rest"
  shows "readUInt32LE sb = Inr (w, sb\<lparr>SmartBuffer.readOffset := SmartBuffer.readOffset sb + 4\<rparr>)"
proof -
  have ne: "u32le w \<noteq> []" by (simp add: u32le_def)
  have le: "SmartBuffer.readOffset sb + 4 \<le> length (buff sb)"
    using remaining_length [OF assms ne] by simp
  have n: "buff sb ! (SmartBuffer.readOffset sb) = ucast w"
    "buff sb ! (SmartBuffer.readOffset sb + 1) = ucast (drop_bit 8 w)"
    "buff sb ! (SmartBuffer.readOffset sb + 2) = ucast (drop_bit 16 w)"
    "buff sb ! (SmartBuffer.readOffset sb + 3) = ucast (drop_bit 24 w)"
    using remaining_nth [OF assms, of 0] remaining_nth [OF assms, of 1]
      remaining_nth [OF assms, of 2] remaining_nth [OF assms, of 3]
    by (simp_all add: u32le_def)
  have "le_u32 (buff sb ! (SmartBuffer.readOffset sb)) (buff sb ! (SmartBuffer.readOffset sb + 1))
          (buff sb ! (SmartBuffer.readOffset sb + 2)) (buff sb ! (SmartBuffer.readOffset sb + 3)) = w"
    unfolding n by (rule le_u32_u32le)
  then show ?thesis
    using le unfolding readUInt32LE_def Let_def by simp
qed

lemma readUInt8_remaining:
  assumes "remaining sb = c # rest"
  shows "readUInt8 sb = Inr (c, sb\<lparr>SmartBuffer.readOffset := SmartBuffer.readOffset sb + 1\<rparr>)"
proof -
  have a: "remaining sb = [c] @ rest" using assms by simp
  have le: "SmartBuffer.readOffset sb + 1 \<le> length (buff sb)"
    using remaining_length [OF a] by simp
  have "buff sb ! (SmartBuffer.readOffset sb) = c"
    using remaining_nth [OF a, of 0] by simp
  then show ?thesis using le by (simp add: readUInt8_def Let_def)
qed

lemma takeWhile_no_NUL: "no_NUL str \<Longrightarrow> takeWhile (\<lambda>c. c \<noteq> 0) (str @ 0 # rest) = str"
  by (induction str) (simp_all add: no_NUL_def)

lemma readStringNT_remaining:
  assumes "remaining sb = str @ 0 # rest" "no_NUL str"
  shows "protocolUtils_readStringNT sb =
           Inr (str, sb\<lparr>SmartBuffer.readOffset := SmartBuffer.readOffset sb + length str + 1\<rparr>)"
  using assms(1) takeWhile_no_NUL [OF assms(2), of rest]
  by (simp add: protocolUtils_readStringNT_def readStringNT_def remaining_def Let_def)

lemma read32:
  assumes "remaining sb = u32le w @ rest"
  shows "\<exists>sb'. readUInt32LE sb = Inr (w, sb') \<and> remaining sb' = rest"
  using readUInt32LE_remaining [OF assms] remaining_advance [OF assms] by simp

lemma read8:
  assumes "remaining sb = c # rest"
  shows "\<exists>sb'. readUInt8 sb = Inr (c, sb') \<and> remaining sb' = rest"
  using readUInt8_remaining [OF assms] remaining_advance [of sb "[c]" rest] assms by simp

lemma readNT:
  assumes "remaining sb = str @ 0 # rest" "no_NUL str"
  shows "\<exists>sb'. protocolUtils_readStringNT sb = Inr (str, sb') \<and> remaining sb' = rest"
proof -
  have a: "remaining sb = (str @ [0]) @ rest" using assms(1) by simp
  show ?thesis
    using readStringNT_remaining [OF assms] remaining_advance [OF a] by (simp add: add.assoc)
qed

lemma unat_u32_of_nat: "n < 2 ^ 32 \<Longrightarrow> unat (word_of_nat n :: u32) = n"
  by (simp add: unat_of_nat)

lemma loadCommonResponseFields_remaining:
  assumes "remaining sb = u32le pl @ u32le rid @ u32le ec @ rest"
  shows "\<exists>sb'. loadCommonResponseFields d sb =
            Inr (d\<lparr>packetLength := Some (unat pl), ResponseFields.requestId := rid, ResponseFields.errorCode := ec\<rparr>, sb') \<and>
          remaining sb' = rest"
proof -
  obtain r1 where r1: "readUInt32LE sb = Inr (pl, r1)" "remaining r1 = u32le rid @ u32le ec @ rest"
    using read32 [OF assms] by blast
  obtain r2 where r2: "readUInt32LE r1 = Inr (rid, r2)" "remaining r2 = u32le ec @ rest"
    using read32 [OF r1(2)] by blast
  obtain r3 where r3: "readUInt32LE r2 = Inr (ec, r3)" "remaining r3 = rest"
    using read32 [OF r2(2)] by blast
  show ?thesis
    using r1 r2 r3 by (simp add: loadCommonResponseFields_def Let_def)
qed

lemma loadCommonUpdateFields_remaining:
  assumes "remaining sb = u32le pl @ u32le 0 @ u32le ec @ u32le ut @ rest"
  shows "\<exists>sb'. loadCommonUpdateFields d sb ut =
            Inr (d\<lparr>packetLength := Some (unat pl), ResponseFields.requestId := 0, ResponseFields.errorCode := ec,
                   UpdateFields.updateType := ut\<rparr>, sb') \<and>
          remaining sb' = rest"
proof -
  obtain r3 where r3: "loadCommonResponseFields d sb =
            Inr (d\<lparr>packetLength := Some (unat pl), ResponseFields.requestId := 0, ResponseFields.errorCode := ec\<rparr>, r3)"
      "remaining r3 = u32le ut @ rest"
    using loadCommonResponseFields_remaining [OF assms, of d] by blast
  obtain r4 where r4: "readUInt32LE r3 = Inr (ut, r4)" "remaining r4 = rest"
    using read32 [OF r3(2)] by blast
  show ?thesis
    using r3 r4 by (simp add: loadCommonUpdateFields_def Let_def)
qed

lemma insertCommonResponseFields_eq:
  "insertCommonResponseFields d sb =
     (d\<lparr>packetLength := Some (length (buff sb) + 12)\<rparr>,
      sb\<lparr>buff := u32le (word_of_nat (length (buff sb) + 12)) @ u32le (ResponseFields.requestId d) @
                  u32le (ResponseFields.errorCode d) @ buff sb,
         writeOffset := writeOffset sb + 12\<rparr>)"
  by (simp add: insertCommonResponseFields_def insertUInt32LE_def insertBytes_def Let_def
      add.commute)

lemma ThreadAttachedUpdate_toBuffer_eq:
  "ThreadAttachedUpdate_toBuffer (ThreadAttachedUpdate_fromJson ti sr detail) =
     Inr (u32le (word_of_nat (length detail + 22)) @ u32le 0 @ u32le 0 @ u32le 3 @
            u32le ti @ [sr] @ detail @ [0],
          (ThreadAttachedUpdate_fromJson ti sr detail)
            \<lparr>ProtocolEvent.data := (ProtocolEvent.data (ThreadAttachedUpdate_fromJson ti sr detail))
                       \<lparr>packetLength := Some (length detail + 22)\<rparr>\<rparr>)"
  by (simp add: ThreadAttachedUpdate_toBuffer_def ThreadAttachedUpdate_fromJson_def loadJson_def
      new_ThreadAttachedUpdate_def insertCommonUpdateFields_def insertCommonResponseFields_eq
      insertUInt32LE_def insertBytes_def writeInt32LE_def writeUInt8_def writeStringNT_def
      writeBytes_def new_SmartBuffer_def SmartBuffer_toBuffer_def opt_u32_def opt_u8_def Let_def
      add.commute)

lemma remaining_fromBuffer: "remaining (SmartBuffer_fromBuffer b) = b"
  by (simp add: remaining_def SmartBuffer_fromBuffer_def)

lemma ThreadAttachedUpdate_decode:
  assumes nul: "no_NUL detail" and len: "length detail + 22 < 2 ^ 32"
  shows "ThreadAttachedUpdate_fromBuffer
           (u32le (word_of_nat (length detail + 22)) @ u32le 0 @ u32le 0 @ u32le 3 @
            u32le ti @ [sr] @ detail @ [0]) =
         \<lparr>ProtocolEvent.success = True, readOffset = length detail + 22,
          data = (ProtocolEvent.data (ThreadAttachedUpdate_fromJson ti sr detail))
                   \<lparr>packetLength := Some (length detail + 22)\<rparr>\<rparr>"
proof -
  let ?b = "u32le (word_of_nat (length detail + 22)) @ u32le 0 @ u32le 0 @ u32le 3 @
            u32le ti @ [sr] @ detail @ [0]"
  let ?d0 = "ProtocolEvent.data new_ThreadAttachedUpdate"
  have ut: "UpdateFields.updateType ?d0 = 3" by (simp add: new_ThreadAttachedUpdate_def)
  have lb: "length ?b = length detail + 22" by simp
  have pl: "unat (word_of_nat (length detail + 22) :: u32) = length detail + 22"
    using len by (rule unat_u32_of_nat)
  have r0: "remaining (SmartBuffer_fromBuffer ?b) =
      u32le (word_of_nat (length detail + 22)) @ u32le 0 @ u32le 0 @ u32le 3 @
        (u32le ti @ [sr] @ detail @ [0])"
    by (simp add: remaining_fromBuffer)
  obtain r1 where r1: "loadCommonUpdateFields ?d0 (SmartBuffer_fromBuffer ?b) 3 =
        Inr (?d0\<lparr>packetLength := Some (length detail + 22), ResponseFields.requestId := 0,
                  ResponseFields.errorCode := 0, UpdateFields.updateType := 3\<rparr>, r1)"
      "remaining r1 = u32le ti @ ([sr] @ detail @ [0])"
    using loadCommonUpdateFields_remaining [OF r0, of ?d0] pl by auto
  obtain r2 where r2: "readInt32LE r1 = Inr (ti, r2)" "remaining r2 = sr # (detail @ [0])"
    using read32 [OF r1(2)] by (auto simp add: readInt32LE_def)
  obtain r3 where r3: "readUInt8 r2 = Inr (sr, r3)" "remaining r3 = detail @ 0 # []"
    using read8 [OF r2(2)] by auto
  obtain r4 where r4: "protocolUtils_readStringNT r3 = Inr (detail, r4)"
    using readNT [OF r3(2) nul] by blast
  show ?thesis
    unfolding ThreadAttachedUpdate_fromBuffer_def bufferLoaderHelper_def
    using lb ut r1(1) r2(1) r3(1) r4
    by (simp add: Let_def) (simp add: new_ThreadAttachedUpdate_def ThreadAttachedUpdate_fromJson_def
        loadJson_def)
qed

lemma writeBytes_at_end:
  "writeOffset sb = length (buff sb) \<Longrightarrow>
   writeBytes bs sb = sb\<lparr>buff := buff sb @ bs, writeOffset := length (buff sb) + length bs\<rparr>"
  by (simp add: writeBytes_def)

lemma writeEntry_at_end:
  assumes "writeOffset sb = length (buff sb)"
  shows "writeEntry entry sb =
           sb\<lparr>buff := buff sb @ entry_bytes entry,
              writeOffset := length (buff sb) + length (entry_bytes entry)\<rparr>"
  using assms
  by (simp add: writeEntry_def writeUInt32LE_def writeStringNT_def writeBytes_at_end entry_bytes_def)

lemma fold_writeEntry:
  "writeOffset sb = length (buff sb) \<Longrightarrow>
   fold writeEntry es sb =
     sb\<lparr>buff := buff sb @ concat (map entry_bytes es),
        writeOffset := length (buff sb) + length (concat (map entry_bytes es))\<rparr>"
proof (induction es arbitrary: sb)
  case Nil
  then show ?case by simp
next
  case (Cons e es)
  let ?sb1 = "sb\<lparr>buff := buff sb @ entry_bytes e,
                    writeOffset := length (buff sb) + length (entry_bytes e)\<rparr>"
  have w: "writeOffset ?sb1 = length (buff ?sb1)" by simp
  have "fold writeEntry (e # es) sb = fold writeEntry es ?sb1"
    using Cons.prems by (simp add: writeEntry_at_end)
  also have "\<dots> = ?sb1\<lparr>buff := buff ?sb1 @ concat (map entry_bytes es),
        writeOffset := length (buff ?sb1) + length (concat (map entry_bytes es))\<rparr>"
    using w by (rule Cons.IH)
  finally show ?case by (simp add: add.assoc)
qed

lemma StackTraceV3Response_toBuffer_eq:
  "StackTraceV3Response_toBuffer (StackTraceV3Response_fromJson rid (Some es)) =
     (u32le (word_of_nat (length (concat (map entry_bytes es)) + 16)) @ u32le rid @ u32le 0 @
        u32le (word_of_nat (length es)) @ concat (map entry_bytes es),
      (StackTraceV3Response_fromJson rid (Some es))
        \<lparr>ProtocolEvent.data := (ProtocolEvent.data (StackTraceV3Response_fromJson rid (Some es)))
                   \<lparr>packetLength := Some (length (concat (map entry_bytes es)) + 16)\<rparr>\<rparr>)"
proof -
  let ?b1 = "writeUInt32LE (word_of_nat (length es)) new_SmartBuffer"
  have b1: "?b1 = \<lparr>buff = u32le (word_of_nat (length es)), SmartBuffer.readOffset = 0, writeOffset = 4\<rparr>"
    by (simp add: writeUInt32LE_def writeBytes_def new_SmartBuffer_def)
  have "fold writeEntry es ?b1 =
      \<lparr>buff = u32le (word_of_nat (length es)) @ concat (map entry_bytes es),
       SmartBuffer.readOffset = 0, writeOffset = 4 + length (concat (map entry_bytes es))\<rparr>"
    unfolding b1 by (subst fold_writeEntry) simp_all
  then show ?thesis
    by (simp add: StackTraceV3Response_toBuffer_def StackTraceV3Response_fromJson_def loadJson_def
        new_StackTraceV3Response_def insertCommonResponseFields_eq SmartBuffer_toBuffer_def Let_def
        add.commute)
qed

lemma readEntries_remaining:
  "remaining sb = concat (map entry_bytes es) @ rest \<Longrightarrow> entries_no_NUL es \<Longrightarrow>
   entries d = Some acc \<Longrightarrow>
   \<exists>sb'. readEntries (length es) d sb = Inr (d\<lparr>entries := Some (acc @ es)\<rparr>, sb') \<and>
         remaining sb' = rest"
proof (induction es arbitrary: sb d acc)
  case Nil
  then show ?case by simp
next
  case (Cons e es)
  have nul: "no_NUL (functionName e)" "no_NUL (filePath e)" "entries_no_NUL es"
    using Cons.prems(2) by (simp_all add: entries_no_NUL_def)
  have r0: "remaining sb = u32le (lineNumber e) @
      (functionName e @ 0 # (filePath e @ 0 # (concat (map entry_bytes es) @ rest)))"
    using Cons.prems(1) by (simp add: entry_bytes_def [of e])
  obtain r1 where r1: "readUInt32LE sb = Inr (lineNumber e, r1)"
      "remaining r1 = functionName e @ 0 # (filePath e @ 0 # (concat (map entry_bytes es) @ rest))"
    using read32 [OF r0] by blast
  obtain r2 where r2: "protocolUtils_readStringNT r1 = Inr (functionName e, r2)"
      "remaining r2 = filePath e @ 0 # (concat (map entry_bytes es) @ rest)"
    using readNT [OF r1(2) nul(1)] by blast
  obtain r3 where r3: "protocolUtils_readStringNT r2 = Inr (filePath e, r3)"
      "remaining r3 = concat (map entry_bytes es) @ rest"
    using readNT [OF r2(2) nul(2)] by blast
  let ?d1 = "d\<lparr>entries := Some (acc @ [\<lparr>lineNumber = lineNumber e, functionName = functionName e,
                                           filePath = filePath e\<rparr>])\<rparr>"
  have d1: "entries ?d1 = Some (acc @ [e])" by simp
  obtain sb' where s: "readEntries (length es) ?d1 r3 = Inr (?d1\<lparr>entries := Some ((acc @ [e]) @ es)\<rparr>, sb')"
      "remaining sb' = rest"
    using Cons.IH [OF r3(2) nul(3) d1] by blast
  show ?case
    using r1(1) r2(1) r3(1) Cons.prems(3) s by simp
qed

lemma length_entries_le: "length es \<le> length (concat (map entry_bytes es))"
  by (induction es) (simp_all add: entry_bytes_def)

lemma StackTraceV3Response_decode:
  assumes nul: "entries_no_NUL es" and len: "length (concat (map entry_bytes es)) + 16 < 2 ^ 32"
  shows "StackTraceV3Response_fromBuffer
           (u32le (word_of_nat (length (concat (map entry_bytes es)) + 16)) @ u32le rid @ u32le 0 @
            u32le (word_of_nat (length es)) @ concat (map entry_bytes es)) =
         \<lparr>ProtocolEvent.success = True, readOffset = length (concat (map entry_bytes es)) + 16,
          data = (ProtocolEvent.data (StackTraceV3Response_fromJson rid (Some es)))
                   \<lparr>packetLength := Some (length (concat (map entry_bytes es)) + 16)\<rparr>\<rparr>"
proof -
  let ?L = "length (concat (map entry_bytes es)) + 16"
  let ?b = "u32le (word_of_nat ?L) @ u32le rid @ u32le 0 @
            u32le (word_of_nat (length es)) @ concat (map entry_bytes es)"
  let ?d0 = "ProtocolEvent.data new_StackTraceV3Response"
  have lb: "length ?b = ?L" by simp
  have pl: "unat (word_of_nat ?L :: u32) = ?L"
    using len by (rule unat_u32_of_nat)
  have "length es < 2 ^ 32" using length_entries_le [of es] len by linarith
  then have n: "unat (word_of_nat (length es) :: u32) = length es"
    by (rule unat_u32_of_nat)
  have r0: "remaining (SmartBuffer_fromBuffer ?b) =
      u32le (word_of_nat ?L) @ u32le rid @ u32le 0 @
        (u32le (word_of_nat (length es)) @ concat (map entry_bytes es))"
    by (simp add: remaining_fromBuffer)
  let ?d1 = "?d0\<lparr>packetLength := Some ?L, ResponseFields.requestId := rid,
                   ResponseFields.errorCode := 0\<rparr>"
  obtain r1 where r1: "loadCommonResponseFields ?d0 (SmartBuffer_fromBuffer ?b) = Inr (?d1, r1)"
      "remaining r1 = u32le (word_of_nat (length es)) @ (concat (map entry_bytes es) @ [])"
    using loadCommonResponseFields_remaining [OF r0, of ?d0] pl by auto
  obtain r2 where r2: "readUInt32LE r1 = Inr (word_of_nat (length es), r2)"
      "remaining r2 = concat (map entry_bytes es) @ []"
    using read32 [OF r1(2)] by blast
  have e: "entries (?d1\<lparr>entries := Some []\<rparr>) = Some []" by simp
  obtain r3 where r3: "readEntries (length es) (?d1\<lparr>entries := Some []\<rparr>) r2 =
      Inr ((?d1\<lparr>entries := Some []\<rparr>)\<lparr>entries := Some ([] @ es)\<rparr>, r3)"
    using readEntries_remaining [OF r2(2) nul e] by blast
  show ?thesis
    unfolding StackTraceV3Response_fromBuffer_def bufferLoaderHelper_def
    using lb r1(1) r2(1) r3 n
    by (simp add: Let_def) (simp add: new_StackTraceV3Response_def StackTraceV3Response_fromJson_def
        loadJson_def)
qed

text \<open>
  C1. Decoding the encoding of a message built by \<open>fromJson\<close> gives back its data, with
  \<open>packetLength\<close> set to the byte length of the encoding, provided that no string field holds
  a NUL byte and that the frame length fits the 32-bit length field. For a
  \<open>ThreadAttachedUpdate\<close> the encoding has \<open>length detail + 22\<close> bytes; for a
  \<open>StackTraceV3Response\<close> it has 16 bytes plus the bytes of its entries. In both cases
  \<open>fromBuffer\<close> succeeds, consumes the whole encoding, and its data equals the data of the
  message with \<open>packetLength\<close> updated; \<open>packetLength\<close> is unset on the message as built,
  and a \<open>StackTraceV3Response\<close> built without entries is the one built with the empty list.
  Without the condition on the strings the statement is false, as the 25-byte frame at the
  end of this section shows.
\<close>

theorem codec_round_trip:
  "(no_NUL detail \<and> length detail + 22 < 2 ^ 32 \<longrightarrow>
      (\<exists>buf x'. ThreadAttachedUpdate_toBuffer (ThreadAttachedUpdate_fromJson ti sr detail) = Inr (buf, x') \<and>
         length buf = length detail + 22 \<and>
         ProtocolEvent.data x' =
           (ProtocolEvent.data (ThreadAttachedUpdate_fromJson ti sr detail))
             \<lparr>packetLength := Some (length buf)\<rparr> \<and>
         ThreadAttachedUpdate_fromBuffer buf =
           \<lparr>ProtocolEvent.success = True, readOffset = length buf,
            data = (ProtocolEvent.data (ThreadAttachedUpdate_fromJson ti sr detail))
                     \<lparr>packetLength := Some (length buf)\<rparr>\<rparr>)) \<and>
   packetLength (ProtocolEvent.data (ThreadAttachedUpdate_fromJson ti sr detail)) = None \<and>
   (entries_no_NUL es \<and> length (concat (map entry_bytes es)) + 16 < 2 ^ 32 \<longrightarrow>
      (\<exists>buf x'. StackTraceV3Response_toBuffer (StackTraceV3Response_fromJson rid (Some es)) = (buf, x') \<and>
         length buf = length (concat (map entry_bytes es)) + 16 \<and>
         ProtocolEvent.data x' =
           (ProtocolEvent.data (StackTraceV3Response_fromJson rid (Some es)))
             \<lparr>packetLength := Some (length buf)\<rparr> \<and>
         StackTraceV3Response_fromBuffer buf =
           \<lparr>ProtocolEvent.success = True, readOffset = length buf,
            data = (ProtocolEvent.data (StackTraceV3Response_fromJson rid (Some es)))
                     \<lparr>packetLength := Some (length buf)\<rparr>\<rparr>)) \<and>
   packetLength (ProtocolEvent.data (StackTraceV3Response_fromJson rid (Some es))) = None \<and>
   StackTraceV3Response_fromJson rid None = StackTraceV3Response_fromJson rid (Some [])"
proof (intro conjI impI)
  assume a: "no_NUL detail \<and> length detail + 22 < 2 ^ 32"
  let ?buf = "u32le (word_of_nat (length detail + 22)) @ u32le 0 @ u32le 0 @ u32le 3 @
            u32le ti @ [sr] @ detail @ [0]"
  have "length ?buf = length detail + 22" by simp
  then show "\<exists>buf x'. ThreadAttachedUpdate_toBuffer (ThreadAttachedUpdate_fromJson ti sr detail) = Inr (buf, x') \<and>
         length buf = length detail + 22 \<and>
         ProtocolEvent.data x' =
           (ProtocolEvent.data (ThreadAttachedUpdate_fromJson ti sr detail))
             \<lparr>packetLength := Some (length buf)\<rparr> \<and>
         ThreadAttachedUpdate_fromBuffer buf =
           \<lparr>ProtocolEvent.success = True, readOffset = length buf,
            data = (ProtocolEvent.data (ThreadAttachedUpdate_fromJson ti sr detail))
                     \<lparr>packetLength := Some (length buf)\<rparr>\<rparr>"
    using a ThreadAttachedUpdate_toBuffer_eq [of ti sr detail]
      ThreadAttachedUpdate_decode [of detail ti sr]
    by (intro exI [of _ ?buf]) simp
next
  show "packetLength (ProtocolEvent.data (ThreadAttachedUpdate_fromJson ti sr detail)) = None"
    by (simp add: ThreadAttachedUpdate_fromJson_def loadJson_def new_ThreadAttachedUpdate_def)
next
  assume a: "entries_no_NUL es \<and> length (concat (map entry_bytes es)) + 16 < 2 ^ 32"
  let ?buf = "u32le (word_of_nat (length (concat (map entry_bytes es)) + 16)) @ u32le rid @ u32le 0 @
            u32le (word_of_nat (length es)) @ concat (map entry_bytes es)"
  have "length ?buf = length (concat (map entry_bytes es)) + 16" by simp
  then show "\<exists>buf x'. StackTraceV3Response_toBuffer (StackTraceV3Response_fromJson rid (Some es)) = (buf, x') \<and>
         length buf = length (concat (map entry_bytes es)) + 16 \<and>
         ProtocolEvent.data x' =
           (ProtocolEvent.data (StackTraceV3Response_fromJson rid (Some es)))
             \<lparr>packetLength := Some (length buf)\<rparr> \<and>
         StackTraceV3Response_fromBuffer buf =
           \<lparr>ProtocolEvent.success = True, readOffset = length buf,
            data = (ProtocolEvent.data (StackTraceV3Response_fromJson rid (Some es)))
                     \<lparr>packetLength := Some (length buf)\<rparr>\<rparr>"
    using a StackTraceV3Response_toBuffer_eq [of rid es] StackTraceV3Response_decode [of es rid]
    by (intro exI [of _ ?buf]) simp
next
  show "packetLength (ProtocolEvent.data (StackTraceV3Response_fromJson rid (Some es))) = None"
    by (simp add: StackTraceV3Response_fromJson_def loadJson_def new_StackTraceV3Response_def)
next
  show "StackTraceV3Response_fromJson rid None = StackTraceV3Response_fromJson rid (Some [])"
    by (simp add: StackTraceV3Response_fromJson_def loadJson_def new_StackTraceV3Response_def)
qed

theorem codec_round_trip_witness:
  "(\<exists>buf x'. ThreadAttachedUpdate_toBuffer (ThreadAttachedUpdate_fromJson 1 3 [98, 101, 99, 97, 117, 115, 101]) = Inr (buf, x') \<and>
      length buf = 29 \<and>
      ThreadAttachedUpdate_fromBuffer buf =
        \<lparr>ProtocolEvent.success = True, readOffset = 29,
         data = \<lparr>packetLength = Some 29, ResponseFields.requestId = 0, ResponseFields.errorCode = 0, UpdateFields.updateType = 3,
                 ThreadAttachedUpdate_data.threadIndex = Some 1, ThreadAttachedUpdate_data.stopReason = Some 3, ThreadAttachedUpdate_data.stopReasonDetail = Some [98, 101, 99, 97, 117, 115, 101]\<rparr>\<rparr>) \<and>
   (\<exists>buf x'. StackTraceV3Response_toBuffer
        (StackTraceV3Response_fromJson 5
           (Some [\<lparr>lineNumber = 10, functionName = [109, 97, 105, 110], filePath = [112, 107, 103, 58, 47, 115, 111, 117, 114, 99, 101, 47, 109, 97, 105, 110, 46, 98, 114, 115]\<rparr>,
                  \<lparr>lineNumber = 20, functionName = [102, 111, 111], filePath = [112, 107, 103, 58, 47, 115, 111, 117, 114, 99, 101, 47, 102, 111, 111, 46, 98, 114, 115]\<rparr>])) = (buf, x') \<and>
      length buf = 74 \<and>
      StackTraceV3Response_fromBuffer buf =
        \<lparr>ProtocolEvent.success = True, readOffset = 74,
         data = \<lparr>packetLength = Some 74, ResponseFields.requestId = 5, ResponseFields.errorCode = 0,
                 entries = Some [\<lparr>lineNumber = 10, functionName = [109, 97, 105, 110], filePath = [112, 107, 103, 58, 47, 115, 111, 117, 114, 99, 101, 47, 109, 97, 105, 110, 46, 98, 114, 115]\<rparr>,
                                 \<lparr>lineNumber = 20, functionName = [102, 111, 111], filePath = [112, 107, 103, 58, 47, 115, 111, 117, 114, 99, 101, 47, 102, 111, 111, 46, 98, 114, 115]\<rparr>]\<rparr>\<rparr>)"
proof -
  let ?es = "[\<lparr>lineNumber = 10, functionName = [109, 97, 105, 110], filePath = [112, 107, 103, 58, 47, 115, 111, 117, 114, 99, 101, 47, 109, 97, 105, 110, 46, 98, 114, 115]\<rparr>,
              \<lparr>lineNumber = 20, functionName = [102, 111, 111], filePath = [112, 107, 103, 58, 47, 115, 111, 117, 114, 99, 101, 47, 102, 111, 111, 46, 98, 114, 115]\<rparr>]"
  have h1: "no_NUL [98, 101, 99, 97, 117, 115, 101] \<and> length [98, 101, 99, 97, 117, 115, 101] + 22 < (2::nat) ^ 32"
    by (simp add: no_NUL_def)
  have h2: "entries_no_NUL ?es \<and> length (concat (map entry_bytes ?es)) + 16 < (2::nat) ^ 32"
    by (simp add: entries_no_NUL_def no_NUL_def entry_bytes_def)
  have l: "length (concat (map entry_bytes ?es)) + 16 = 74"
    by (simp add: entry_bytes_def)
  have d1: "ProtocolEvent.data (ThreadAttachedUpdate_fromJson 1 3 [98, 101, 99, 97, 117, 115, 101]) =
      \<lparr>packetLength = None, ResponseFields.requestId = 0, ResponseFields.errorCode = 0, UpdateFields.updateType = 3,
       ThreadAttachedUpdate_data.threadIndex = Some 1, ThreadAttachedUpdate_data.stopReason = Some 3, ThreadAttachedUpdate_data.stopReasonDetail = Some [98, 101, 99, 97, 117, 115, 101]\<rparr>"
    by (simp add: ThreadAttachedUpdate_fromJson_def loadJson_def new_ThreadAttachedUpdate_def)
  have d2: "ProtocolEvent.data (StackTraceV3Response_fromJson 5 (Some ?es)) =
      \<lparr>packetLength = None, ResponseFields.requestId = 5, ResponseFields.errorCode = 0, entries = Some ?es\<rparr>"
    by (simp add: StackTraceV3Response_fromJson_def loadJson_def new_StackTraceV3Response_def)
  note rt = codec_round_trip [of "[98, 101, 99, 97, 117, 115, 101]" 1 3 ?es 5]
  obtain buf1 x1 where a:
    "ThreadAttachedUpdate_toBuffer (ThreadAttachedUpdate_fromJson 1 3 [98, 101, 99, 97, 117, 115, 101]) =
       Inr (buf1, x1)"
    "length buf1 = 29"
    "ThreadAttachedUpdate_fromBuffer buf1 =
       \<lparr>ProtocolEvent.success = True, readOffset = length buf1,
        data = (ProtocolEvent.data (ThreadAttachedUpdate_fromJson 1 3 [98, 101, 99, 97, 117, 115, 101]))
                 \<lparr>packetLength := Some (length buf1)\<rparr>\<rparr>"
    using rt h1 by auto
  obtain buf2 x2 where b:
    "StackTraceV3Response_toBuffer (StackTraceV3Response_fromJson 5 (Some ?es)) = (buf2, x2)"
    "length buf2 = length (concat (map entry_bytes ?es)) + 16"
    "StackTraceV3Response_fromBuffer buf2 =
       \<lparr>ProtocolEvent.success = True, readOffset = length buf2,
        data = (ProtocolEvent.data (StackTraceV3Response_fromJson 5 (Some ?es)))
                 \<lparr>packetLength := Some (length buf2)\<rparr>\<rparr>"
    using rt h2 by blast
  have b2: "length buf2 = 74" using b(2) l by simp
  show ?thesis
  proof (intro conjI)
    show "\<exists>buf x'. ThreadAttachedUpdate_toBuffer (ThreadAttachedUpdate_fromJson 1 3 [98, 101, 99, 97, 117, 115, 101]) = Inr (buf, x') \<and>
      length buf = 29 \<and>
      ThreadAttachedUpdate_fromBuffer buf =
        \<lparr>ProtocolEvent.success = True, readOffset = 29,
         data = \<lparr>packetLength = Some 29, ResponseFields.requestId = 0, ResponseFields.errorCode = 0, UpdateFields.updateType = 3,
                 ThreadAttachedUpdate_data.threadIndex = Some 1, ThreadAttachedUpdate_data.stopReason = Some 3, ThreadAttachedUpdate_data.stopReasonDetail = Some [98, 101, 99, 97, 117, 115, 101]\<rparr>\<rparr>"
      using a unfolding d1 by (intro exI [of _ buf1] exI [of _ x1]) simp
    show "\<exists>buf x'. StackTraceV3Response_toBuffer
        (StackTraceV3Response_fromJson 5 (Some ?es)) = (buf, x') \<and>
      length buf = 74 \<and>
      StackTraceV3Response_fromBuffer buf =
        \<lparr>ProtocolEvent.success = True, readOffset = 74,
         data = \<lparr>packetLength = Some 74, ResponseFields.requestId = 5, ResponseFields.errorCode = 0,
                 entries = Some ?es\<rparr>\<rparr>"
      using b(1,3) b2 unfolding d2 by (intro exI [of _ buf2] exI [of _ x2]) simp
  qed
qed

text \<open>
  C1, for a string that holds a NUL byte. The detail of the three bytes 97, 0, 98 is encoded as
  the 25 bytes below; decoding them stops the detail at its first NUL byte, so the decoded
  \<open>stopReasonDetail\<close> is the single byte 97 and the decoded data differs from the data of the
  message.
\<close>

lemma NUL_frame_encoded:
  "map_sum id fst (ThreadAttachedUpdate_toBuffer (ThreadAttachedUpdate_fromJson 1 3 [97, 0, 98])) =
     Inr [25,0,0,0, 0,0,0,0, 0,0,0,0, 3,0,0,0, 1,0,0,0, 3, 97, 0, 98, 0]"
  by (simp add: ThreadAttachedUpdate_toBuffer_eq u32le_def)

lemma NUL_frame_decoded:
  "ThreadAttachedUpdate_fromBuffer [25,0,0,0, 0,0,0,0, 0,0,0,0, 3,0,0,0, 1,0,0,0, 3, 97, 0, 98, 0] =
     \<lparr>ProtocolEvent.success = True, readOffset = 25,
      data = \<lparr>packetLength = Some 25, ResponseFields.requestId = 0, ResponseFields.errorCode = 0,
              UpdateFields.updateType = 3, ThreadAttachedUpdate_data.threadIndex = Some 1,
              ThreadAttachedUpdate_data.stopReason = Some 3,
              ThreadAttachedUpdate_data.stopReasonDetail = Some [97]\<rparr>\<rparr>"
  by (simp add: ThreadAttachedUpdate_fromBuffer_def bufferLoaderHelper_def new_ThreadAttachedUpdate_def
      loadCommonUpdateFields_def loadCommonResponseFields_def SmartBuffer_fromBuffer_def
      readUInt32LE_def readInt32LE_def readUInt8_def protocolUtils_readStringNT_def readStringNT_def
      le_u32_def Let_def)

theorem round_trip_NUL_counterexample:
  "map_sum id fst (ThreadAttachedUpdate_toBuffer (ThreadAttachedUpdate_fromJson 1 3 [97, 0, 98])) =
     Inr [25,0,0,0, 0,0,0,0, 0,0,0,0, 3,0,0,0, 1,0,0,0, 3, 97, 0, 98, 0] \<and>
   ProtocolEvent.data
     (ThreadAttachedUpdate_fromBuffer [25,0,0,0, 0,0,0,0, 0,0,0,0, 3,0,0,0, 1,0,0,0, 3, 97, 0, 98, 0]) \<noteq>
   (ProtocolEvent.data (ThreadAttachedUpdate_fromJson 1 3 [97, 0, 98]))\<lparr>packetLength := Some 25\<rparr> \<and>
   ThreadAttachedUpdate_data.stopReasonDetail
     (ProtocolEvent.data
        (ThreadAttachedUpdate_fromBuffer
           [25,0,0,0, 0,0,0,0, 0,0,0,0, 3,0,0,0, 1,0,0,0, 3, 97, 0, 98, 0])) = Some [97]"
proof (intro conjI)
  show "map_sum id fst (ThreadAttachedUpdate_toBuffer (ThreadAttachedUpdate_fromJson 1 3 [97, 0, 98])) =
     Inr [25,0,0,0, 0,0,0,0, 0,0,0,0, 3,0,0,0, 1,0,0,0, 3, 97, 0, 98, 0]"
    by (rule NUL_frame_encoded)
next
  show "ProtocolEvent.data
     (ThreadAttachedUpdate_fromBuffer [25,0,0,0, 0,0,0,0, 0,0,0,0, 3,0,0,0, 1,0,0,0, 3, 97, 0, 98, 0]) \<noteq>
   (ProtocolEvent.data (ThreadAttachedUpdate_fromJson 1 3 [97, 0, 98]))\<lparr>packetLength := Some 25\<rparr>"
    by (simp add: NUL_frame_decoded ThreadAttachedUpdate_fromJson_def loadJson_def
        new_ThreadAttachedUpdate_def)
next
  show "ThreadAttachedUpdate_data.stopReasonDetail
     (ProtocolEvent.data
        (ThreadAttachedUpdate_fromBuffer
           [25,0,0,0, 0,0,0,0, 0,0,0,0, 3,0,0,0, 1,0,0,0, 3, 97, 0, 98, 0])) = Some [97]"
    by (simp add: NUL_frame_decoded)
qed

end
